theory Spec2Isabelle
  imports Main "HOL-Library.Word"
begin

unbundle bit_operations_syntax

section \<open>Exceptions and the \<^verbatim>\<open>struct\<close> module\<close>

text \<open>
  The model of \<^verbatim>\<open>src/model/Saver.py\<close>. A file is a list of bytes. Every exception the
  two methods can raise is a value of \<open>error\<close>:
  \<^item> \<open>ValueError_invalid_file_format\<close>: the \<^verbatim>\<open>raise ValueError("Invalid file format")\<close> of
    \<^verbatim>\<open>load_map\<close>;
  \<^item> \<open>ValueError_not_a_valid_OreType v\<close>: what the enumeration call \<^verbatim>\<open>OreType(v)\<close> raises when
    no member has the value \<open>v\<close>;
  \<^item> \<open>struct_error\<close>: \<^verbatim>\<open>struct.error\<close>, raised by \<^verbatim>\<open>struct.pack\<close> on a value that does not fit
    the format and by \<^verbatim>\<open>struct.unpack\<close> on a buffer of the wrong size;
  \<^item> \<open>TypeError\<close> and \<open>IndexError\<close>: subscripting or iterating a value that does not
    support it, and \<^verbatim>\<open>xs[0]\<close> on an empty list.
\<close>

type_synonym byte = "8 word"

datatype error =
    ValueError_invalid_file_format
  | ValueError_not_a_valid_OreType int
  | struct_error
  | TypeError
  | IndexError

text \<open>
  The format strings of the source have no byte-order prefix, so \<^verbatim>\<open>struct\<close> uses the byte
  order of the machine; the model fixes little-endian. \<^verbatim>\<open>'i'\<close> is a signed 32-bit integer
  in two's complement, \<^verbatim>\<open>'B'\<close> an unsigned byte, \<^verbatim>\<open>'f'\<close> an IEEE-754 binary32 value.

  A Python float is a double. A sample of a noise grid is a float that binary32 holds
  exactly, identified with its binary32 bit pattern (a \<open>32 word\<close>); the rounding of other
  doubles is outside the model. \<^verbatim>\<open>pack\<close> narrows the double to binary32 and \<^verbatim>\<open>unpack\<close>
  widens the binary32 value to a double, and either conversion turns a signalling NaN
  (exponent bits all set, fraction not zero, its first bit clear) into the quiet NaN of
  the same sign and payload, setting that first bit of the fraction.
\<close>

definition is_nan :: "32 word \<Rightarrow> bool" where
  "is_nan w \<longleftrightarrow> w AND 2139095040 = 2139095040 \<and> w AND 8388607 \<noteq> 0"

definition quiet :: "32 word \<Rightarrow> 32 word" where
  "quiet w = (if is_nan w then w OR 4194304 else w)"

definition le_bytes :: "32 word \<Rightarrow> byte list" where
  "le_bytes w = [ucast w, ucast (drop_bit 8 w), ucast (drop_bit 16 w), ucast (drop_bit 24 w)]"

fun le_word :: "byte list \<Rightarrow> 32 word" where
  "le_word [b0, b1, b2, b3] =
     ucast b0 OR push_bit 8 (ucast b1) OR push_bit 16 (ucast b2) OR push_bit 24 (ucast b3)"
| "le_word _ = 0"

definition int32 :: "int \<Rightarrow> bool" where
  "int32 v \<longleftrightarrow> - (2 ^ 31) \<le> v \<and> v < 2 ^ 31"

definition pack_i :: "int \<Rightarrow> error + byte list" where
  "pack_i v = (if int32 v then Inr (le_bytes (word_of_int v)) else Inl struct_error)"

definition pack_ii :: "int \<Rightarrow> int \<Rightarrow> error + byte list" where
  "pack_ii a b =
     (if int32 a \<and> int32 b then Inr (le_bytes (word_of_int a) @ le_bytes (word_of_int b))
      else Inl struct_error)"

definition pack_B :: "int \<Rightarrow> error + byte list" where
  "pack_B v = (if 0 \<le> v \<and> v \<le> 255 then Inr [word_of_int v] else Inl struct_error)"

definition pack_f :: "32 word \<Rightarrow> error + byte list" where
  "pack_f v = Inr (le_bytes (quiet v))"

definition unpack_i :: "byte list \<Rightarrow> error + int" where
  "unpack_i bs = (if length bs = 4 then Inr (sint (le_word bs)) else Inl struct_error)"

definition unpack_ii :: "byte list \<Rightarrow> error + int \<times> int" where
  "unpack_ii bs =
     (if length bs = 8 then Inr (sint (le_word (take 4 bs)), sint (le_word (drop 4 bs)))
      else Inl struct_error)"

definition unpack_B :: "byte list \<Rightarrow> error + int" where
  "unpack_B bs = (case bs of [b] \<Rightarrow> Inr (uint b) | _ \<Rightarrow> Inl struct_error)"

definition unpack_BBBB :: "byte list \<Rightarrow> error + int list" where
  "unpack_BBBB bs = (if length bs = 4 then Inr (map uint bs) else Inl struct_error)"

definition unpack_f :: "byte list \<Rightarrow> error + 32 word" where
  "unpack_f bs = (if length bs = 4 then Inr (quiet (le_word bs)) else Inl struct_error)"

section \<open>Statements on an open file\<close>

text \<open>
  A statement runs on the state of the open file and either returns a value or raises;
  the state it leaves is kept in both cases. For \<^verbatim>\<open>save_map\<close> the state is the content
  written so far, for \<^verbatim>\<open>load_map\<close> the bytes not yet read.
\<close>

type_synonym 'a io = "byte list \<Rightarrow> (error + 'a) \<times> byte list"

definition io_return :: "'a \<Rightarrow> 'a io" where
  "io_return a = (\<lambda>s. (Inr a, s))"

definition io_raise :: "error \<Rightarrow> 'a io" where
  "io_raise e = (\<lambda>s. (Inl e, s))"

definition io_lift :: "error + 'a \<Rightarrow> 'a io" where
  "io_lift r = (\<lambda>s. (r, s))"

definition io_bind :: "'a io \<Rightarrow> ('a \<Rightarrow> 'b io) \<Rightarrow> 'b io" where
  "io_bind m k = (\<lambda>s. case m s of (Inl e, s') \<Rightarrow> (Inl e, s') | (Inr a, s') \<Rightarrow> k a s')"

text \<open>A block of statements, run in order up to the first one that raises.\<close>

fun io_block :: "unit io list \<Rightarrow> unit io" where
  "io_block [] = io_return ()"
| "io_block (m # ms) = io_bind m (\<lambda>_. io_block ms)"

text \<open>
  \<^verbatim>\<open>for x in xs: body\<close>, with the variables the body assigns as the accumulator.
  \<^verbatim>\<open>range(n)\<close> is empty for a negative \<open>n\<close>.
\<close>

fun for_in :: "'a list \<Rightarrow> ('a \<Rightarrow> 'acc \<Rightarrow> 'acc io) \<Rightarrow> 'acc \<Rightarrow> 'acc io" where
  "for_in [] body acc = io_return acc"
| "for_in (x # xs) body acc = io_bind (body x acc) (for_in xs body)"

definition for_each :: "'a list \<Rightarrow> ('a \<Rightarrow> unit io) \<Rightarrow> unit io" where
  "for_each xs body = for_in xs (\<lambda>x _. body x) ()"

definition py_range :: "int \<Rightarrow> nat list" where
  "py_range n = [0..<nat n]"

text \<open>\<^verbatim>\<open>f.write(struct.pack(...))\<close>: nothing is written when \<^verbatim>\<open>pack\<close> raises.\<close>

definition f_write :: "error + byte list \<Rightarrow> unit io" where
  "f_write p = (case p of Inl e \<Rightarrow> io_raise e | Inr bs \<Rightarrow> (\<lambda>f. (Inr (), f @ bs)))"

text \<open>\<^verbatim>\<open>f.read(n)\<close> returns the next \<open>n\<close> bytes, or fewer at the end of the file.\<close>

definition f_read :: "nat \<Rightarrow> byte list io" where
  "f_read n = (\<lambda>f. (Inr (take n f), drop n f))"

definition read_i :: "int io" where
  "read_i = io_bind (f_read 4) (\<lambda>b. io_lift (unpack_i b))"

definition read_ii :: "(int \<times> int) io" where
  "read_ii = io_bind (f_read 8) (\<lambda>b. io_lift (unpack_ii b))"

definition read_B :: "int io" where
  "read_B = io_bind (f_read 1) (\<lambda>b. io_lift (unpack_B b))"

definition read_f :: "32 word io" where
  "read_f = io_bind (f_read 4) (\<lambda>b. io_lift (unpack_f b))"

section \<open>The world\<close>

text \<open>
  \<^verbatim>\<open>model.Geometry\<close>, \<^verbatim>\<open>model.Structures\<close>, \<^verbatim>\<open>model.Map\<close> and \<^verbatim>\<open>model.Perlin\<close> are not among
  the sources; the classes are modelled by the attributes and constructor calls that
  \<^verbatim>\<open>Saver\<close> uses. Python integers are unbounded (\<open>int\<close>). Two points are equal, and are
  the same key of a dictionary, when their coordinates are equal.
\<close>

datatype point = Point (point_x: int) (point_y: int)

text \<open>A member of the enumeration \<^verbatim>\<open>OreType\<close> is identified by its \<^verbatim>\<open>.value\<close>.\<close>

datatype OreType = OreType (ore_value: int)

datatype Structure =
  Structure (structure_type: int) (position: point) (points: "point list")

datatype Building =
  Building (building_position: point) (building_points: "point list")

text \<open>
  What \<^verbatim>\<open>Saver\<close> finds in \<^verbatim>\<open>map.perlin.chunks\<close>. \<^verbatim>\<open>save_map\<close> subscripts each key
  (\<^verbatim>\<open>chunk_coords[0]\<close>), as for a tuple; \<^verbatim>\<open>load_map\<close> stores each chunk under a
  \<^verbatim>\<open>Point(chunk_x, chunk_y)\<close>. A chunk is a float or a list of values: \<^verbatim>\<open>save_map\<close> takes
  \<^verbatim>\<open>len(chunk)\<close> and iterates \<^verbatim>\<open>chunk[0]\<close>, \<^verbatim>\<open>load_map\<close> builds a list of lists of floats.
\<close>

datatype chunk_key = Tuple int int | PointKey point

datatype pyval = PFloat "32 word" | PList "pyval list"

text \<open>
  A dictionary is an association list in insertion order, the order \<^verbatim>\<open>.items()\<close> iterates
  in. \<^verbatim>\<open>d[k] = v\<close> replaces the value of a key that is present, in place, and puts a new
  key last.
\<close>

fun dict_set :: "'k \<Rightarrow> 'v \<Rightarrow> ('k \<times> 'v) list \<Rightarrow> ('k \<times> 'v) list" where
  "dict_set k v [] = [(k, v)]"
| "dict_set k v (p # ps) = (if fst p = k then (k, v) # ps else p # dict_set k v ps)"

record Perlin =
  seed :: int
  chunks :: "(chunk_key \<times> pyval) list"

record Map =
  perlin :: Perlin
  ores :: "(point \<times> (OreType \<times> point list) list) list"
  structures :: "(point \<times> Structure list) list"
  buildings :: "Building list"

text \<open>
  Modelled from the spec: the constructor \<^verbatim>\<open>Map(seed)\<close> of \<^verbatim>\<open>model.Map\<close>, which is not among
  the sources. The spec has \<^verbatim>\<open>load\<close> fill a freshly constructed world state: a world with
  the given seed and no ore, structure, building or noise chunk.
\<close>

definition Map_new :: "int \<Rightarrow> Map" where
  "Map_new s = \<lparr>perlin = \<lparr>seed = s, chunks = []\<rparr>, ores = [], structures = [], buildings = []\<rparr>"

text \<open>
  The call \<^verbatim>\<open>OreType(v)\<close>: the member whose value is \<open>v\<close>. The members of the enumeration
  are declared in \<^verbatim>\<open>model.Structures\<close>; the list of their values is a parameter.
\<close>

definition OreType_call :: "int list \<Rightarrow> int \<Rightarrow> error + OreType" where
  "OreType_call members v =
     (if v \<in> set members then Inr (OreType v) else Inl (ValueError_not_a_valid_OreType v))"

section \<open>\<^verbatim>\<open>Saver.save_map\<close>\<close>

definition signature :: "int list" where
  "signature = [77, 65, 80, 0]"

definition save_point :: "point \<Rightarrow> unit io" where
  "save_point point = f_write (pack_ii (point_x point) (point_y point))"

text \<open>Lines 20 to 28: the ores of each chunk, by kind.\<close>

definition save_ore :: "OreType \<times> point list \<Rightarrow> unit io" where
  "save_ore = (\<lambda>(ore_type, ore). io_block [
     f_write (pack_B (ore_value ore_type)),
     f_write (pack_i (int (length ore))),
     for_each ore save_point])"

definition save_ore_chunk :: "point \<times> (OreType \<times> point list) list \<Rightarrow> unit io" where
  "save_ore_chunk = (\<lambda>(chunk_coords, ores). io_block [
     f_write (pack_ii (point_x chunk_coords) (point_y chunk_coords)),
     f_write (pack_i (int (length ores))),
     for_each ores save_ore])"

text \<open>Lines 30 to 39: the structures of each chunk.\<close>

definition save_structure :: "Structure \<Rightarrow> unit io" where
  "save_structure structure = io_block [
     f_write (pack_i (structure_type structure)),
     f_write (pack_ii (point_x (position structure)) (point_y (position structure))),
     f_write (pack_i (int (length (points structure)))),
     for_each (points structure) save_point]"

definition save_structure_chunk :: "point \<times> Structure list \<Rightarrow> unit io" where
  "save_structure_chunk = (\<lambda>(chunk_coords, structures). io_block [
     f_write (pack_ii (point_x chunk_coords) (point_y chunk_coords)),
     f_write (pack_i (int (length structures))),
     for_each structures save_structure])"

text \<open>Lines 41 to 46: the buildings.\<close>

definition save_building :: "Building \<Rightarrow> unit io" where
  "save_building building = io_block [
     f_write (pack_ii (point_x (building_position building))
                    (point_y (building_position building))),
     f_write (pack_i (int (length (building_points building)))),
     for_each (building_points building) save_point]"

text \<open>
  Modelled from the spec: the class \<^verbatim>\<open>Point\<close> of \<^verbatim>\<open>model.Geometry\<close>, which is not among the
  sources. The spec has a \<^verbatim>\<open>Point\<close> be a structured value of the two fields \<^verbatim>\<open>x\<close> and \<^verbatim>\<open>y\<close>
  and sets it apart from the bare pair of integers that keys a noise chunk: subscripting
  a \<^verbatim>\<open>Point\<close> raises \<^verbatim>\<open>TypeError\<close>, subscripting a pair gives its components.
\<close>

definition subscript_key :: "chunk_key \<Rightarrow> error + int \<times> int" where
  "subscript_key k = (case k of Tuple a b \<Rightarrow> Inr (a, b) | PointKey p \<Rightarrow> Inl TypeError)"

text \<open>
  Lines 50 to 55: a noise chunk. The row count written is \<^verbatim>\<open>len(chunk)\<close>; the rows iterated
  are those of \<^verbatim>\<open>chunk[0]\<close>, and \<^verbatim>\<open>struct.pack('f', value)\<close> needs a float.
\<close>

definition len :: "pyval \<Rightarrow> error + int" where
  "len v = (case v of PFloat _ \<Rightarrow> Inl TypeError | PList xs \<Rightarrow> Inr (int (length xs)))"

definition subscript0 :: "pyval \<Rightarrow> error + pyval" where
  "subscript0 v =
     (case v of PFloat _ \<Rightarrow> Inl TypeError
      | PList xs \<Rightarrow> (case xs of [] \<Rightarrow> Inl IndexError | x # _ \<Rightarrow> Inr x))"

definition iter :: "pyval \<Rightarrow> error + pyval list" where
  "iter v = (case v of PFloat _ \<Rightarrow> Inl TypeError | PList xs \<Rightarrow> Inr xs)"

definition save_value :: "pyval \<Rightarrow> unit io" where
  "save_value v = (case v of PFloat x \<Rightarrow> f_write (pack_f x) | PList _ \<Rightarrow> io_raise struct_error)"

definition save_row :: "pyval \<Rightarrow> unit io" where
  "save_row row = io_bind (io_lift (iter row)) (\<lambda>vs. for_each vs save_value)"

definition save_noise_chunk :: "chunk_key \<times> pyval \<Rightarrow> unit io" where
  "save_noise_chunk = (\<lambda>(chunk_coords, chunk). io_block [
     io_bind (io_lift (subscript_key chunk_coords)) (\<lambda>(c0, c1). f_write (pack_ii c0 c1)),
     io_bind (io_lift (len chunk)) (\<lambda>n. f_write (pack_i n)),
     io_bind (io_lift (subscript0 chunk)) (\<lambda>c. io_bind (io_lift (iter c)) (\<lambda>rows.
       for_each rows save_row))])"

text \<open>
  The body of the \<^verbatim>\<open>with\<close> block, lines 15 to 55. \<open>CHUNK_SIZE\<close> is the class attribute
  \<^verbatim>\<open>Perlin.CHUNK_SIZE\<close>, a parameter.
\<close>

definition save_body :: "int \<Rightarrow> Map \<Rightarrow> unit io" where
  "save_body CHUNK_SIZE mp = io_block [
     for_each signature (\<lambda>b. f_write (pack_B b)),
     f_write (pack_i (seed (perlin mp))),
     f_write (pack_i (int (length (ores mp)))),
     for_each (ores mp) save_ore_chunk,
     f_write (pack_i (int (length (structures mp)))),
     for_each (structures mp) save_structure_chunk,
     f_write (pack_i (int (length (buildings mp)))),
     for_each (buildings mp) save_building,
     f_write (pack_i CHUNK_SIZE),
     f_write (pack_i (int (length (chunks (perlin mp))))),
     for_each (chunks (perlin mp)) save_noise_chunk]"

text \<open>
  \<^verbatim>\<open>open('map.exd', 'wb')\<close> empties the file. The result is the outcome of the call and
  the content of the file when the call returns or raises.
\<close>

definition save_map :: "int \<Rightarrow> Map \<Rightarrow> (error + unit) \<times> byte list" where
  "save_map CHUNK_SIZE mp = save_body CHUNK_SIZE mp []"

section \<open>\<^verbatim>\<open>Saver.load_map\<close>\<close>

text \<open>
  The loop that reads \<^verbatim>\<open>num_points\<close> points into a new list; the source has it three times
  (lines 75 to 78, 91 to 94 and 102 to 105).
\<close>

definition load_points :: "int \<Rightarrow> point list io" where
  "load_points num_points =
     for_in (py_range num_points)
       (\<lambda>_ points. io_bind read_ii (\<lambda>(point_x, point_y).
          io_return (points @ [Point point_x point_y])))
       []"

text \<open>Lines 67 to 80.\<close>

definition load_ore ::
  "int list \<Rightarrow> (OreType \<times> point list) list \<Rightarrow> (OreType \<times> point list) list io" where
  "load_ore members ores_in_chunk =
     io_bind read_B (\<lambda>v.
     io_bind (io_lift (OreType_call members v)) (\<lambda>ore_type.
     io_bind read_i (\<lambda>num_points.
     io_bind (load_points num_points) (\<lambda>points.
     io_return (dict_set ore_type points ores_in_chunk)))))"

definition load_ore_chunk :: "int list \<Rightarrow> Map \<Rightarrow> Map io" where
  "load_ore_chunk members mp =
     io_bind read_ii (\<lambda>(chunk_x, chunk_y).
     io_bind read_i (\<lambda>num_ores_in_chunk.
     io_bind (for_in (py_range num_ores_in_chunk) (\<lambda>_. load_ore members) []) (\<lambda>ores_in_chunk.
     io_return (mp\<lparr>ores := dict_set (Point chunk_x chunk_y) ores_in_chunk (ores mp)\<rparr>))))"

definition load_ores :: "int list \<Rightarrow> Map \<Rightarrow> Map io" where
  "load_ores members mp =
     io_bind read_i (\<lambda>num_ores.
     for_in (py_range num_ores) (\<lambda>_. load_ore_chunk members) mp)"

text \<open>Lines 82 to 96.\<close>

definition load_structure :: "Structure list \<Rightarrow> Structure list io" where
  "load_structure structures_in_chunk =
     io_bind read_i (\<lambda>structure_type.
     io_bind read_ii (\<lambda>(position_x, position_y).
     io_bind read_i (\<lambda>num_points.
     io_bind (load_points num_points) (\<lambda>points.
     io_return
       (structures_in_chunk @
          [Structure structure_type (Point position_x position_y) points])))))"

definition load_structure_chunk :: "Map \<Rightarrow> Map io" where
  "load_structure_chunk mp =
     io_bind read_ii (\<lambda>(chunk_x, chunk_y).
     io_bind read_i (\<lambda>num_structures_in_chunk.
     io_bind (for_in (py_range num_structures_in_chunk) (\<lambda>_. load_structure) [])
       (\<lambda>structures_in_chunk.
     io_return
       (mp\<lparr>structures :=
              dict_set (Point chunk_x chunk_y) structures_in_chunk (structures mp)\<rparr>))))"

definition load_structures :: "Map \<Rightarrow> Map io" where
  "load_structures mp =
     io_bind read_i (\<lambda>num_structures.
     for_in (py_range num_structures) (\<lambda>_. load_structure_chunk) mp)"

text \<open>Lines 98 to 106.\<close>

definition load_building :: "Map \<Rightarrow> Map io" where
  "load_building mp =
     io_bind read_ii (\<lambda>(position_x, position_y).
     io_bind read_i (\<lambda>num_points.
     io_bind (load_points num_points) (\<lambda>points.
     io_return
       (mp\<lparr>buildings := buildings mp @ [Building (Point position_x position_y) points]\<rparr>))))"

definition load_buildings :: "Map \<Rightarrow> Map io" where
  "load_buildings mp =
     io_bind read_i (\<lambda>num_buildings.
     for_in (py_range num_buildings) (\<lambda>_. load_building) mp)"

text \<open>
  Lines 108 to 118. The grid is allocated with \<^verbatim>\<open>chunk_size\<close> rows of \<^verbatim>\<open>chunk_size\<close> zeros
  and filled in place; after the two coordinates the samples are read at once.
\<close>

definition grid_value :: "32 word list list \<Rightarrow> pyval" where
  "grid_value chunk = PList (map (\<lambda>row. PList (map PFloat row)) chunk)"

definition load_grid :: "int \<Rightarrow> 32 word list list io" where
  "load_grid chunk_size =
     for_in (py_range chunk_size)
       (\<lambda>i. for_in (py_range chunk_size)
          (\<lambda>j chunk. io_bind read_f (\<lambda>v. io_return (chunk[i := (chunk ! i)[j := v]]))))
       (replicate (nat chunk_size) (replicate (nat chunk_size) 0))"

definition load_noise_chunk :: "int \<Rightarrow> Map \<Rightarrow> Map io" where
  "load_noise_chunk chunk_size mp =
     io_bind read_ii (\<lambda>(chunk_x, chunk_y).
     io_bind (load_grid chunk_size) (\<lambda>chunk.
     io_return
       (mp\<lparr>perlin := (perlin mp)\<lparr>chunks :=
          dict_set (PointKey (Point chunk_x chunk_y)) (grid_value chunk)
            (chunks (perlin mp))\<rparr>\<rparr>)))"

definition load_noise :: "Map \<Rightarrow> Map io" where
  "load_noise mp =
     io_bind read_i (\<lambda>chunk_size.
     io_bind read_i (\<lambda>num_chunks.
     for_in (py_range num_chunks) (\<lambda>_. load_noise_chunk chunk_size) mp))"

text \<open>Lines 60 to 65: the signature, the seed and the new world.\<close>

definition load_header :: "Map io" where
  "load_header =
     io_bind (f_read 4) (\<lambda>b.
     io_bind (io_lift (unpack_BBBB b)) (\<lambda>file_signature.
     if file_signature \<noteq> signature then io_raise ValueError_invalid_file_format
     else io_bind read_i (\<lambda>seed. io_return (Map_new seed))))"

text \<open>
  The body of the \<^verbatim>\<open>with\<close> block, lines 60 to 120, on the content of the file. The result
  is the outcome of the call and the bytes it has left unread.
\<close>

definition load_map :: "int list \<Rightarrow> byte list \<Rightarrow> (error + Map) \<times> byte list" where
  "load_map members =
     io_bind load_header (\<lambda>mp.
     io_bind (load_ores members mp) (\<lambda>mp.
     io_bind (load_structures mp) (\<lambda>mp.
     io_bind (load_buildings mp) load_noise)))"


section \<open>The fields of the file\<close>

text \<open>
  A field is one call of \<^verbatim>\<open>struct.pack\<close>: \<^verbatim>\<open>'i'\<close>, \<^verbatim>\<open>'ii'\<close>, \<^verbatim>\<open>'B'\<close> or \<^verbatim>\<open>'f'\<close> with its
  arguments, or the exception raised where a value cannot be subscripted, measured or
  iterated. \<open>file_fields\<close> lists the fields of a world in the order \<^verbatim>\<open>save_map\<close> comes
  to them; \<open>save_map_fields\<close> below proves that \<^verbatim>\<open>save_map\<close> writes these fields one
  after the other and stops at the first one that raises.
\<close>

datatype field = Fi int | Fii int int | FB int | Ff "32 word" | Raise error

definition pack :: "field \<Rightarrow> error + byte list" where
  "pack fld =
     (case fld of Fi v \<Rightarrow> pack_i v | Fii a b \<Rightarrow> pack_ii a b | FB v \<Rightarrow> pack_B v
      | Ff x \<Rightarrow> pack_f x | Raise e \<Rightarrow> Inl e)"

definition emit :: "field \<Rightarrow> unit io" where
  "emit fld = f_write (pack fld)"

definition point_field :: "point \<Rightarrow> field" where
  "point_field p = Fii (point_x p) (point_y p)"

definition points_fields :: "point list \<Rightarrow> field list" where
  "points_fields ps = Fi (int (length ps)) # map point_field ps"

definition ore_fields :: "OreType \<times> point list \<Rightarrow> field list" where
  "ore_fields = (\<lambda>(ore_type, ore). FB (ore_value ore_type) # points_fields ore)"

definition ore_chunk_fields :: "point \<times> (OreType \<times> point list) list \<Rightarrow> field list" where
  "ore_chunk_fields = (\<lambda>(chunk_coords, os).
     point_field chunk_coords # Fi (int (length os)) # concat (map ore_fields os))"

definition structure_fields :: "Structure \<Rightarrow> field list" where
  "structure_fields s =
     Fi (structure_type s) # point_field (position s) # points_fields (points s)"

definition structure_chunk_fields :: "point \<times> Structure list \<Rightarrow> field list" where
  "structure_chunk_fields = (\<lambda>(chunk_coords, ss).
     point_field chunk_coords # Fi (int (length ss)) # concat (map structure_fields ss))"

definition building_fields :: "Building \<Rightarrow> field list" where
  "building_fields b = point_field (building_position b) # points_fields (building_points b)"

definition value_field :: "pyval \<Rightarrow> field" where
  "value_field v = (case v of PFloat x \<Rightarrow> Ff x | PList _ \<Rightarrow> Raise struct_error)"

definition row_fields :: "pyval \<Rightarrow> field list" where
  "row_fields row = (case iter row of Inl e \<Rightarrow> [Raise e] | Inr vs \<Rightarrow> map value_field vs)"

definition key_field :: "chunk_key \<Rightarrow> field" where
  "key_field k = (case subscript_key k of Inl e \<Rightarrow> Raise e | Inr (c0, c1) \<Rightarrow> Fii c0 c1)"

definition len_field :: "pyval \<Rightarrow> field" where
  "len_field chunk = (case len chunk of Inl e \<Rightarrow> Raise e | Inr n \<Rightarrow> Fi n)"

definition rows_fields :: "pyval \<Rightarrow> field list" where
  "rows_fields chunk =
     (case subscript0 chunk of Inl e \<Rightarrow> [Raise e]
      | Inr c \<Rightarrow> (case iter c of Inl e \<Rightarrow> [Raise e]
                 | Inr rows \<Rightarrow> concat (map row_fields rows)))"

definition noise_chunk_fields :: "chunk_key \<times> pyval \<Rightarrow> field list" where
  "noise_chunk_fields = (\<lambda>(chunk_coords, chunk).
     key_field chunk_coords # len_field chunk # rows_fields chunk)"

definition file_fields :: "int \<Rightarrow> Map \<Rightarrow> field list" where
  "file_fields CHUNK_SIZE mp =
     map FB signature @
     Fi (seed (perlin mp)) #
     Fi (int (length (ores mp))) # concat (map ore_chunk_fields (ores mp)) @
     Fi (int (length (structures mp))) # concat (map structure_chunk_fields (structures mp)) @
     Fi (int (length (buildings mp))) # concat (map building_fields (buildings mp)) @
     Fi CHUNK_SIZE #
     Fi (int (length (chunks (perlin mp)))) #
     concat (map noise_chunk_fields (chunks (perlin mp)))"

fun outcome :: "field list \<Rightarrow> error + unit" where
  "outcome [] = Inr ()"
| "outcome (fld # fs) = (case pack fld of Inl e \<Rightarrow> Inl e | Inr _ \<Rightarrow> outcome fs)"

fun written :: "field list \<Rightarrow> byte list" where
  "written [] = []"
| "written (fld # fs) = (case pack fld of Inl e \<Rightarrow> [] | Inr bs \<Rightarrow> bs @ written fs)"

fun field_ints :: "field \<Rightarrow> int list" where
  "field_ints (Fi v) = [v]"
| "field_ints (Fii a b) = [a, b]"
| "field_ints _ = []"

definition int_fields :: "int \<Rightarrow> Map \<Rightarrow> int list" where
  "int_fields CHUNK_SIZE mp = concat (map field_ints (file_fields CHUNK_SIZE mp))"

fun other_bytes :: "field \<Rightarrow> nat" where
  "other_bytes (FB _) = 1"
| "other_bytes (Ff _) = 4"
| "other_bytes _ = 0"

section \<open>Predicates of the properties\<close>

text \<open>A grid of \<open>n\<close> rows of \<open>n\<close> samples each.\<close>

definition square :: "nat \<Rightarrow> 32 word list list \<Rightarrow> bool" where
  "square n g \<longleftrightarrow> length g = n \<and> (\<forall>row \<in> set g. length row = n)"


text \<open>
  A statement that reads does not depend on what follows the bytes it has read: when it
  returns on a file, it returns the same on any longer file that begins alike.
\<close>

definition extends :: "'a io \<Rightarrow> bool" where
  "extends m \<longleftrightarrow> (\<forall>s a r q. m s = (Inr a, r) \<longrightarrow> m (s @ q) = (Inr a, r @ q))"

section \<open>Bytes and integers\<close>

lemma le_word_le_bytes: "le_word (le_bytes w) = w"
proof (rule bit_word_eqI)
  fix n assume n: "n < LENGTH(32)"
  consider "n < 8" | "8 \<le> n" "n < 16" | "16 \<le> n" "n < 24" | "24 \<le> n" "n < 32"
    using n by fastforce
  then show "bit (le_word (le_bytes w)) n = bit w n"
    by cases (auto simp: le_bytes_def bit_simps)
qed

lemma length_le_bytes: "length (le_bytes w) = 4"
  by (simp add: le_bytes_def)

lemma sint_word_of_int32: "int32 v \<Longrightarrow> sint (word_of_int v :: 32 word) = v"
  by (simp add: int32_def sint_sbintrunc' signed_take_bit_int_eq_self)

lemma inj_uint8: "inj (uint :: byte \<Rightarrow> int)"
  by (rule injI) (simp add: word_uint_eq_iff)

lemma signature_bytes: "map uint [77, 65, 80, 0 :: byte] = signature"
  by (simp add: signature_def)

section \<open>Statements\<close>

lemma io_bind_apply:
  "io_bind m k s = (case m s of (Inl e, s') \<Rightarrow> (Inl e, s') | (Inr a, s') \<Rightarrow> k a s')"
  by (simp add: io_bind_def)

lemma read_i_le_bytes: "read_i (le_bytes w @ rest) = (Inr (sint w), rest)"
  by (simp add: read_i_def io_bind_apply f_read_def io_lift_def unpack_i_def
      length_le_bytes le_word_le_bytes)

lemma read_i_le_bytes_end: "read_i (le_bytes w) = (Inr (sint w), [])"
  using read_i_le_bytes [of w "[]"] by simp

lemma io_bind_Inr:
  "io_bind m k s = (Inr b, s') \<longleftrightarrow> (\<exists>a s1. m s = (Inr a, s1) \<and> k a s1 = (Inr b, s'))"
  by (auto simp: io_bind_apply split: prod.splits sum.splits)


lemma io_bind_assoc: "io_bind (io_bind m f) g = io_bind m (\<lambda>x. io_bind (f x) g)"
  by (rule ext) (simp add: io_bind_apply split: prod.splits sum.splits)


text \<open>A loop is the iterations before the \<open>k\<close>-th, then the \<open>k\<close>-th and what follows it.\<close>

lemma for_in_append:
  "for_in (xs @ ys) body acc s = io_bind (for_in xs body acc) (for_in ys body) s"
proof (induction xs arbitrary: acc s)
  case Nil
  show ?case by (simp add: io_bind_apply io_return_def)
next
  case (Cons x xs)
  then show ?case by (simp add: io_bind_apply split: prod.splits sum.splits)
qed

lemma py_range_split:
  assumes "k < nat n"
  shows "py_range n = [0..<k] @ k # [Suc k..<nat n]"
proof -
  have "[0..<k + (nat n - k)] = [0..<k] @ [k..<k + (nat n - k)]"
    by (rule upt_add_eq_append) simp
  then show ?thesis
    using assms by (simp add: py_range_def upt_conv_Cons)
qed

lemma for_in_raises:
  assumes "k < nat n" and "for_in [0..<k] body acc s = (Inr acc1, s1)"
    and "body k acc1 s1 = (Inl e, s2)"
  shows "for_in (py_range n) body acc s = (Inl e, s2)"
  using assms(2,3)
  by (simp add: py_range_split [OF assms(1)] for_in_append io_bind_apply)


section \<open>The signature\<close>

text \<open>
  C3. On a file of at least four bytes whose first four bytes are not 77, 65, 80, 0,
  \<^verbatim>\<open>load_map\<close> raises \<^verbatim>\<open>ValueError("Invalid file format")\<close> and has read these four
  bytes only: no seed is read and no world is built.
\<close>

theorem load_map_rejects_signature:
  assumes "4 \<le> length bs" and "take 4 bs \<noteq> [77, 65, 80, 0]"
  shows "load_map members bs = (Inl ValueError_invalid_file_format, drop 4 bs)"
proof -
  have "map uint (take 4 bs) \<noteq> signature"
    unfolding signature_bytes [symmetric]
    using assms(2) by (simp only: inj_map_eq_map [OF inj_uint8] not_False_eq_True)
  then show ?thesis
    using assms(1)
    by (simp add: load_map_def load_header_def io_bind_apply f_read_def io_lift_def
        unpack_BBBB_def io_raise_def)
qed

theorem load_map_rejects_signature_witness:
  "4 \<le> length [77, 65, 80, 1, 0, 0 :: byte]
   \<and> take 4 [77, 65, 80, 1, 0, 0 :: byte] \<noteq> [77, 65, 80, 0]
   \<and> load_map [] [77, 65, 80, 1, 0, 0] = (Inl ValueError_invalid_file_format, [0, 0])"
  using load_map_rejects_signature [of "[77, 65, 80, 1, 0, 0]" "[]"] by simp

text \<open>A file of fewer than four bytes is not unpacked: \<^verbatim>\<open>struct.error\<close>.\<close>

lemma load_map_short:
  "length bs < 4 \<Longrightarrow> load_map members bs = (Inl struct_error, [])"
  by (simp add: load_map_def load_header_def io_bind_apply f_read_def io_lift_def
      unpack_BBBB_def)

section \<open>The empty world\<close>

lemma save_map_empty:
  assumes "int32 s" and "int32 CHUNK_SIZE"
  shows "save_map CHUNK_SIZE (Map_new s) =
           (Inr (), [77, 65, 80, 0] @ le_bytes (word_of_int s) @ le_bytes 0 @ le_bytes 0
               @ le_bytes 0 @ le_bytes (word_of_int CHUNK_SIZE) @ le_bytes 0)"
  using assms
  by (simp add: save_map_def save_body_def Map_new_def for_each_def signature_def
      io_bind_apply f_write_def pack_B_def pack_i_def io_return_def int32_def)

lemma load_map_empty:
  assumes "int32 s"
  shows "load_map members ([77, 65, 80, 0] @ le_bytes (word_of_int s) @ le_bytes 0
           @ le_bytes 0 @ le_bytes 0 @ le_bytes cs @ le_bytes 0) = (Inr (Map_new s), [])"
  using assms
  by (simp add: load_map_def load_header_def load_ores_def load_structures_def
      load_buildings_def load_noise_def io_bind_apply f_read_def io_lift_def
      unpack_BBBB_def signature_def read_i_le_bytes read_i_le_bytes_end
      sint_word_of_int32 py_range_def io_return_def)

lemma Map_empty_eq:
  fixes mp :: Map
  assumes "ores mp = []" and "structures mp = []" and "buildings mp = []"
    and "chunks (perlin mp) = []"
  shows "mp = Map_new (seed (perlin mp))"
  using assms by (cases mp, cases "perlin mp") (simp add: Map_new_def)

text \<open>
  C6. A world with no ore chunk, no structure chunk, no building and no noise chunk, whose
  seed fits 32 bits, is saved as 28 bytes: the signature (4), the seed (4), the four zero
  counts (4 each) and \<open>CHUNK_SIZE\<close> (4), which the noise section writes before its count.
  \<^verbatim>\<open>load_map\<close> reads that file to its end and returns the same world.
\<close>

theorem empty_world:
  fixes mp :: Map
  assumes "ores mp = []" and "structures mp = []" and "buildings mp = []"
    and "chunks (perlin mp) = []"
    and "int32 (seed (perlin mp))" and "int32 CHUNK_SIZE"
  shows "\<exists>out. save_map CHUNK_SIZE mp = (Inr (), out)
           \<and> length out = 4 + 4 + (4 + 4 + 4 + 4) + 4
           \<and> load_map members out = (Inr mp, [])"
proof -
  let ?s = "seed (perlin mp)"
  have mp: "mp = Map_new ?s"
    using assms(1-4) by (rule Map_empty_eq)
  have "save_map CHUNK_SIZE (Map_new ?s) =
      (Inr (), [77, 65, 80, 0] @ le_bytes (word_of_int ?s) @ le_bytes 0 @ le_bytes 0
               @ le_bytes 0 @ le_bytes (word_of_int CHUNK_SIZE) @ le_bytes 0)"
    using assms(5,6) by (rule save_map_empty)
  moreover have "load_map members ([77, 65, 80, 0] @ le_bytes (word_of_int ?s) @ le_bytes 0
       @ le_bytes 0 @ le_bytes 0 @ le_bytes (word_of_int CHUNK_SIZE) @ le_bytes 0)
       = (Inr (Map_new ?s), [])"
    using assms(5) by (rule load_map_empty)
  ultimately show ?thesis
    using mp by (simp add: length_le_bytes)
qed

theorem empty_world_witness:
  "\<exists>out. save_map 16 (Map_new 42) = (Inr (), out) \<and> length out = 28
      \<and> load_map [0, 1] out = (Inr (Map_new 42), [])"
  using empty_world [of "Map_new 42" 16 "[0, 1]"]
  by (simp add: Map_new_def int32_def)

section \<open>The shape of the noise grids read\<close>












section \<open>Unknown ore kinds\<close>

lemma read_B_Cons: "read_B (b # s) = (Inr (uint b), s)"
  by (simp add: read_B_def io_bind_apply f_read_def io_lift_def unpack_B_def)

lemma load_ore_unknown:
  assumes "uint tag \<notin> set members"
  shows "load_ore members ores_in_chunk (tag # s) =
           (Inl (ValueError_not_a_valid_OreType (uint tag)), s)"
  using assms
  by (simp add: load_ore_def io_bind_apply read_B_Cons io_lift_def OreType_call_def)

text \<open>
  C4. The file passes the signature check and gives a seed and the number of ore chunks.
  Let \<^verbatim>\<open>load_map\<close> have read \<open>k\<close> whole ore chunks, fewer than that number, then the
  coordinates of the next chunk and its number of ore kinds, then \<open>j\<close> whole ore kinds of
  it, fewer than that number: the next byte is where the tag of an ore kind is expected.
  If no member of \<^verbatim>\<open>OreType\<close> has the value of this byte, \<^verbatim>\<open>load_map\<close> raises the
  \<^verbatim>\<open>ValueError\<close> of the enumeration, having read the tag and nothing after it; no ore kind
  is put in its place.
\<close>

theorem load_map_unknown_ore_type:
  assumes header: "load_header bs = (Inr mp0, s1)"
    and num_ores: "read_i s1 = (Inr num_ores, s2)"
    and chunks_read: "for_in [0..<k] (\<lambda>_. load_ore_chunk members) mp0 s2 = (Inr mp1, s3)"
    and k: "k < nat num_ores"
    and coords: "read_ii s3 = (Inr (chunk_x, chunk_y), s4)"
    and num_ores_in_chunk: "read_i s4 = (Inr num_ores_in_chunk, s5)"
    and ores_read: "for_in [0..<j] (\<lambda>_. load_ore members) [] s5 = (Inr ores_in_chunk, tag # s6)"
    and j: "j < nat num_ores_in_chunk"
    and unknown: "uint tag \<notin> set members"
  shows "load_map members bs = (Inl (ValueError_not_a_valid_OreType (uint tag)), s6)"
proof -
  let ?e = "ValueError_not_a_valid_OreType (uint tag)"
  have "for_in (py_range num_ores_in_chunk) (\<lambda>_. load_ore members) [] s5 = (Inl ?e, s6)"
    using j ores_read load_ore_unknown [OF unknown] by (rule for_in_raises)
  then have "load_ore_chunk members mp1 s3 = (Inl ?e, s6)"
    using coords num_ores_in_chunk by (simp add: load_ore_chunk_def io_bind_apply)
  with k chunks_read
  have "for_in (py_range num_ores) (\<lambda>_. load_ore_chunk members) mp0 s2 = (Inl ?e, s6)"
    by (rule for_in_raises)
  then have "load_ores members mp0 s1 = (Inl ?e, s6)"
    using num_ores by (simp add: load_ores_def io_bind_apply)
  then show ?thesis
    using header by (simp add: load_map_def io_bind_apply)
qed

theorem load_map_unknown_ore_type_witness:
  "for_in [0..<1] (\<lambda>_. load_ore [1, 2]) []
       [2,  1, 0, 0, 0,  7, 0, 0, 0,  255, 255, 255, 255,  9,  1, 2, 3]
     = (Inr [(OreType 2, [Point 7 (- 1)])], [9,  1, 2, 3])
   \<and> uint (9 :: byte) \<notin> set [1, 2]
   \<and> load_map [1, 2]
       [77, 65, 80, 0,  0, 0, 0, 0,  2, 0, 0, 0,
        3, 0, 0, 0,  4, 0, 0, 0,  1, 0, 0, 0,  1,  0, 0, 0, 0,
        5, 0, 0, 0,  6, 0, 0, 0,  2, 0, 0, 0,
        2,  1, 0, 0, 0,  7, 0, 0, 0,  255, 255, 255, 255,  9,  1, 2, 3]
     = (Inl (ValueError_not_a_valid_OreType 9), [1, 2, 3])"
proof -
  have header: "load_header
       [77, 65, 80, 0,  0, 0, 0, 0,  2, 0, 0, 0,
        3, 0, 0, 0,  4, 0, 0, 0,  1, 0, 0, 0,  1,  0, 0, 0, 0,
        5, 0, 0, 0,  6, 0, 0, 0,  2, 0, 0, 0,
        2,  1, 0, 0, 0,  7, 0, 0, 0,  255, 255, 255, 255,  9,  1, 2, 3]
     = (Inr (Map_new 0),
       [2, 0, 0, 0,
        3, 0, 0, 0,  4, 0, 0, 0,  1, 0, 0, 0,  1,  0, 0, 0, 0,
        5, 0, 0, 0,  6, 0, 0, 0,  2, 0, 0, 0,
        2,  1, 0, 0, 0,  7, 0, 0, 0,  255, 255, 255, 255,  9,  1, 2, 3])"
    by code_simp
  have num_ores: "read_i
       [2, 0, 0, 0,
        3, 0, 0, 0,  4, 0, 0, 0,  1, 0, 0, 0,  1,  0, 0, 0, 0,
        5, 0, 0, 0,  6, 0, 0, 0,  2, 0, 0, 0,
        2,  1, 0, 0, 0,  7, 0, 0, 0,  255, 255, 255, 255,  9,  1, 2, 3]
     = (Inr 2,
       [3, 0, 0, 0,  4, 0, 0, 0,  1, 0, 0, 0,  1,  0, 0, 0, 0,
        5, 0, 0, 0,  6, 0, 0, 0,  2, 0, 0, 0,
        2,  1, 0, 0, 0,  7, 0, 0, 0,  255, 255, 255, 255,  9,  1, 2, 3])"
    by code_simp
  have chunks_read: "for_in [0..<1] (\<lambda>_. load_ore_chunk [1, 2]) (Map_new 0)
       [3, 0, 0, 0,  4, 0, 0, 0,  1, 0, 0, 0,  1,  0, 0, 0, 0,
        5, 0, 0, 0,  6, 0, 0, 0,  2, 0, 0, 0,
        2,  1, 0, 0, 0,  7, 0, 0, 0,  255, 255, 255, 255,  9,  1, 2, 3]
     = (Inr ((Map_new 0)\<lparr>ores := [(Point 3 4, [(OreType 1, [])])]\<rparr>),
       [5, 0, 0, 0,  6, 0, 0, 0,  2, 0, 0, 0,
        2,  1, 0, 0, 0,  7, 0, 0, 0,  255, 255, 255, 255,  9,  1, 2, 3])"
    by code_simp
  have coords: "read_ii
       [5, 0, 0, 0,  6, 0, 0, 0,  2, 0, 0, 0,
        2,  1, 0, 0, 0,  7, 0, 0, 0,  255, 255, 255, 255,  9,  1, 2, 3]
     = (Inr (5, 6),
       [2, 0, 0, 0,  2,  1, 0, 0, 0,  7, 0, 0, 0,  255, 255, 255, 255,  9,  1, 2, 3])"
    by code_simp
  have num_ores_in_chunk: "read_i
       [2, 0, 0, 0,  2,  1, 0, 0, 0,  7, 0, 0, 0,  255, 255, 255, 255,  9,  1, 2, 3]
     = (Inr 2, [2,  1, 0, 0, 0,  7, 0, 0, 0,  255, 255, 255, 255,  9,  1, 2, 3])"
    by code_simp
  have ores_read: "for_in [0..<1] (\<lambda>_. load_ore [1, 2]) []
       [2,  1, 0, 0, 0,  7, 0, 0, 0,  255, 255, 255, 255,  9,  1, 2, 3]
     = (Inr [(OreType 2, [Point 7 (- 1)])], [9,  1, 2, 3])"
    by code_simp
  have unknown: "uint (9 :: byte) \<notin> set [1, 2]"
    by simp
  show ?thesis
    using load_map_unknown_ore_type
      [OF header num_ores chunks_read _ coords num_ores_in_chunk ores_read _ unknown]
      ores_read
    by simp
qed

section \<open>\<^verbatim>\<open>save_map\<close> writes the fields in order\<close>

lemma io_bind_return_right: "io_bind m io_return = m"
  by (rule ext) (simp add: io_bind_apply io_return_def split: prod.splits sum.splits)

lemma io_bind_return_unit: "io_bind m (\<lambda>_. io_return ()) = (m :: unit io)"
  by (rule ext) (simp add: io_bind_apply io_return_def split: prod.splits sum.splits)

lemma emit_apply:
  "emit fld f = (case pack fld of Inl e \<Rightarrow> (Inl e, f) | Inr bs \<Rightarrow> (Inr (), f @ bs))"
  by (simp add: emit_def f_write_def io_raise_def split: sum.splits)

lemma io_bind_return_left: "io_bind (io_return a) k = k a"
  by (rule ext) (simp add: io_bind_apply io_return_def)

lemma io_block_append: "io_block (ms @ ns) = io_bind (io_block ms) (\<lambda>_. io_block ns)"
  by (induction ms) (simp_all add: io_bind_return_left io_bind_assoc)

lemma for_each_Nil: "for_each [] body = io_return ()"
  by (simp add: for_each_def)

lemma for_each_Cons: "for_each (x # xs) body = io_bind (body x) (\<lambda>_. for_each xs body)"
  by (simp add: for_each_def)

lemma for_each_fields:
  assumes "\<And>x. x \<in> set xs \<Longrightarrow> body x = io_block (map emit (G x))"
  shows "for_each xs body = io_block (map emit (concat (map G xs)))"
  using assms
  by (induction xs) (simp_all add: for_each_Nil for_each_Cons io_block_append)

lemma io_block_emit:
  "io_block (map emit fs) f = (outcome fs, f @ written fs)"
proof (induction fs arbitrary: f)
  case Nil
  show ?case by (simp add: io_return_def)
next
  case (Cons fld fs)
  have "io_block (map emit (fld # fs)) f =
      (case emit fld f of (Inl e, s') \<Rightarrow> (Inl e, s')
       | (Inr a, s') \<Rightarrow> io_block (map emit fs) s')"
    by (simp add: io_bind_apply)
  then show ?case
    by (cases "pack fld") (simp_all add: emit_apply [of fld f] Cons)
qed

lemma save_point_fields: "save_point p = emit (point_field p)"
  by (simp add: save_point_def emit_def pack_def point_field_def)

lemma save_points_fields: "for_each ps save_point = io_block (map emit (map point_field ps))"
  using for_each_fields [of ps save_point "\<lambda>p. [point_field p]"]
  by (simp add: save_point_fields io_bind_return_unit io_bind_return_right comp_def)


lemma emit_simps:
  "emit (Fi v) = f_write (pack_i v)"
  "emit (Fii a b) = f_write (pack_ii a b)"
  "emit (FB v) = f_write (pack_B v)"
  "emit (Ff x) = f_write (pack_f x)"
  "emit (Raise e) = io_raise e"
  by (simp_all add: emit_def pack_def f_write_def)

lemmas flatten = io_block_append io_bind_return_unit io_bind_return_right emit_simps

lemma save_ore_fields: "save_ore x = io_block (map emit (ore_fields x))"
  by (cases x)
     (simp add: save_ore_def ore_fields_def points_fields_def save_points_fields flatten)

lemma save_ore_chunk_fields: "save_ore_chunk x = io_block (map emit (ore_chunk_fields x))"
  by (cases x)
     (simp add: save_ore_chunk_def ore_chunk_fields_def point_field_def
        for_each_fields [of _ save_ore ore_fields, OF save_ore_fields] flatten)

lemma save_structure_fields: "save_structure x = io_block (map emit (structure_fields x))"
  by (simp add: save_structure_def structure_fields_def points_fields_def point_field_def
      save_points_fields flatten)

lemma save_structure_chunk_fields:
  "save_structure_chunk x = io_block (map emit (structure_chunk_fields x))"
  by (cases x)
     (simp add: save_structure_chunk_def structure_chunk_fields_def point_field_def
        for_each_fields [of _ save_structure structure_fields, OF save_structure_fields]
        flatten)

lemma save_building_fields: "save_building x = io_block (map emit (building_fields x))"
  by (simp add: save_building_def building_fields_def points_fields_def point_field_def
      save_points_fields flatten)

lemma io_bind_lift: "io_bind (io_lift r) k = (case r of Inl e \<Rightarrow> io_raise e | Inr a \<Rightarrow> k a)"
  by (rule ext) (simp add: io_bind_apply io_lift_def io_raise_def split: sum.splits)

lemma save_value_fields: "save_value v = emit (value_field v)"
  by (cases v) (simp_all add: save_value_def value_field_def emit_simps)

lemma save_row_fields: "save_row row = io_block (map emit (row_fields row))"
  using for_each_fields [of _ save_value "\<lambda>v. [value_field v]"]
  by (cases row)
     (simp_all add: save_row_def row_fields_def iter_def io_bind_lift save_value_fields
        flatten comp_def)

lemma save_noise_chunk_fields:
  "save_noise_chunk x = io_block (map emit (noise_chunk_fields x))"
proof (cases x)
  case (Pair k chunk)
  have key: "io_bind (io_lift (subscript_key k)) (\<lambda>(c0, c1). f_write (pack_ii c0 c1))
      = emit (key_field k)"
    by (cases k) (simp_all add: key_field_def subscript_key_def io_bind_lift emit_simps)
  have count: "io_bind (io_lift (len chunk)) (\<lambda>n. f_write (pack_i n)) = emit (len_field chunk)"
    by (cases chunk) (simp_all add: len_field_def len_def io_bind_lift emit_simps)
  have rows: "io_bind (io_lift (subscript0 chunk)) (\<lambda>c. io_bind (io_lift (iter c)) (\<lambda>rows.
       for_each rows save_row)) = io_block (map emit (rows_fields chunk))"
    by (simp add: rows_fields_def io_bind_lift
        for_each_fields [of _ save_row row_fields, OF save_row_fields] flatten
        split: sum.splits)
  show ?thesis
    by (simp add: Pair save_noise_chunk_def noise_chunk_fields_def key count rows flatten)
qed

lemma save_body_fields:
  "save_body CHUNK_SIZE mp = io_block (map emit (file_fields CHUNK_SIZE mp))"
  using for_each_fields [of signature "\<lambda>b. f_write (pack_B b)" "\<lambda>b. [FB b]"]
  by (simp add: save_body_def file_fields_def
      for_each_fields [of _ save_ore_chunk ore_chunk_fields, OF save_ore_chunk_fields]
      for_each_fields [of _ save_structure_chunk structure_chunk_fields,
        OF save_structure_chunk_fields]
      for_each_fields [of _ save_building building_fields, OF save_building_fields]
      for_each_fields [of _ save_noise_chunk noise_chunk_fields, OF save_noise_chunk_fields]
      flatten comp_def)

lemma save_map_fields:
  "save_map CHUNK_SIZE mp = (outcome (file_fields CHUNK_SIZE mp), written (file_fields CHUNK_SIZE mp))"
  by (simp add: save_map_def save_body_fields io_block_emit)

section \<open>Integers out of the 32-bit range\<close>

lemma pack_out_of_range:
  "v \<in> set (field_ints fld) \<Longrightarrow> \<not> int32 v \<Longrightarrow> pack fld = Inl struct_error"
  by (cases fld) (auto simp: pack_def pack_i_def pack_ii_def)

lemma outcome_raises:
  "fld \<in> set fs \<Longrightarrow> pack fld = Inl e \<Longrightarrow> \<exists>e'. outcome fs = Inl e'"
  by (induction fs) (auto split: sum.splits)

lemma length_pack:
  "pack fld = Inr bs \<Longrightarrow> length bs = 4 * length (field_ints fld) + other_bytes fld"
  by (cases fld)
     (auto simp: pack_def pack_i_def pack_ii_def pack_B_def pack_f_def length_le_bytes
        split: if_splits)

lemma length_written:
  "outcome fs = Inr () \<Longrightarrow>
     length (written fs) =
       4 * length (concat (map field_ints fs)) + sum_list (map other_bytes fs)"
  by (induction fs) (auto split: sum.splits dest: length_pack)

text \<open>
  \<open>int_fields\<close> are the integers \<^verbatim>\<open>save_map\<close> packs with \<^verbatim>\<open>'i'\<close>: the seed, the counts, the
  chunk and point coordinates, the structure types and \<open>CHUNK_SIZE\<close>. When one of them is
  outside the signed 32-bit range, \<^verbatim>\<open>save_map\<close> raises, and the file holds the fields
  before the first one that could not be packed and nothing else.
\<close>

lemma save_map_out_of_range:
  assumes "v \<in> set (int_fields CHUNK_SIZE mp)" and "\<not> int32 v"
  shows "\<exists>e. save_map CHUNK_SIZE mp = (Inl e, written (file_fields CHUNK_SIZE mp))"
proof -
  from assms obtain fld where "fld \<in> set (file_fields CHUNK_SIZE mp)"
    "v \<in> set (field_ints fld)"
    by (auto simp: int_fields_def)
  with assms(2) have "\<exists>e. outcome (file_fields CHUNK_SIZE mp) = Inl e"
    using outcome_raises pack_out_of_range by blast
  then show ?thesis
    by (simp add: save_map_fields)
qed

text \<open>
  When \<^verbatim>\<open>save_map\<close> returns, each integer has 4 bytes of the file; the other bytes are
  the one-byte tags and the 4-byte samples.
\<close>

lemma save_map_returns_length:
  assumes "save_map CHUNK_SIZE mp = (Inr (), out)"
  shows "length out = 4 * length (int_fields CHUNK_SIZE mp)
                      + sum_list (map other_bytes (file_fields CHUNK_SIZE mp))"
proof -
  from assms have "outcome (file_fields CHUNK_SIZE mp) = Inr ()"
    "out = written (file_fields CHUNK_SIZE mp)"
    by (simp_all add: save_map_fields)
  then show ?thesis
    using length_written by (simp add: int_fields_def)
qed

text \<open>
  An integer that \<^verbatim>\<open>save_map\<close> comes to, all fields before it packed, has the 4 bytes of
  its two's complement in the file, after the bytes of the fields before it.
\<close>

lemma save_map_int_field:
  assumes "file_fields CHUNK_SIZE mp = pre @ Fi v # post" and "outcome pre = Inr ()"
    and "int32 v"
  shows "snd (save_map CHUNK_SIZE mp)
           = written pre @ le_bytes (word_of_int v) @ written post
         \<and> length (le_bytes (word_of_int v)) = 4"
proof -
  have "written (pre @ Fi v # post) = written pre @ written (Fi v # post)"
    using assms(2) by (induction pre) (auto split: sum.splits)
  moreover have "written (Fi v # post) = le_bytes (word_of_int v) @ written post"
    using assms(3) by (simp add: pack_def pack_i_def)
  ultimately show ?thesis
    by (simp add: save_map_fields assms(1) length_le_bytes)
qed

text \<open>
  C10 fails on the code. With \<open>CHUNK_SIZE\<close> 1, the world below has two noise chunks, each
  the 1 by 1 grid of one sample, and its twelve integers (the seed 4, three counts 0,
  \<open>CHUNK_SIZE\<close>, the count 2, and the two coordinates and the row count of either chunk)
  are all in the signed 32-bit range. \<^verbatim>\<open>save_map\<close> raises \<^verbatim>\<open>TypeError\<close> where the sample of
  the first chunk is expected: the file has the 4 bytes of the signature and 4 bytes for
  each of the first nine integers, and the coordinates and the row count of the second
  chunk have no byte in it.
\<close>

theorem save_map_int_fields_missing:
  "list_all int32 (int_fields 1 \<lparr>perlin = \<lparr>seed = 4,
            chunks = [(Tuple 0 0, PList [PList [PFloat 1065353216]]),
                      (Tuple 1 0, PList [PList [PFloat 1073741824]])]\<rparr>,
         ores = [], structures = [], buildings = []\<rparr>)
   \<and> int_fields 1 \<lparr>perlin = \<lparr>seed = 4,
            chunks = [(Tuple 0 0, PList [PList [PFloat 1065353216]]),
                      (Tuple 1 0, PList [PList [PFloat 1073741824]])]\<rparr>,
         ores = [], structures = [], buildings = []\<rparr>
     = [4, 0, 0, 0, 1, 2,  0, 0, 1,  1, 0, 1]
   \<and> save_map 1 \<lparr>perlin = \<lparr>seed = 4,
            chunks = [(Tuple 0 0, PList [PList [PFloat 1065353216]]),
                      (Tuple 1 0, PList [PList [PFloat 1073741824]])]\<rparr>,
         ores = [], structures = [], buildings = []\<rparr>
     = (Inl TypeError,
        [77, 65, 80, 0,  4, 0, 0, 0,  0, 0, 0, 0,  0, 0, 0, 0,  0, 0, 0, 0,
         1, 0, 0, 0,  2, 0, 0, 0,  0, 0, 0, 0,  0, 0, 0, 0,  1, 0, 0, 0])"
  by code_simp

section \<open>Noise chunks\<close>

text \<open>
  A grid of rows of samples, as \<^verbatim>\<open>load_map\<close> builds it, cannot be saved: the rows that
  \<^verbatim>\<open>save_map\<close> iterates are the elements of the first row, which are floats, and an empty
  grid has no first row.
\<close>

lemma rows_fields_grid_raises:
  assumes "square n g"
  shows "\<exists>e. Raise e \<in> set (rows_fields (grid_value g))"
proof (cases g)
  case Nil
  then show ?thesis
    by (simp add: rows_fields_def grid_value_def subscript0_def)
next
  case (Cons r rs)
  with assms have "r \<noteq> []"
    by (auto simp: square_def)
  then obtain x xs where "r = x # xs"
    by (cases r) auto
  with Cons show ?thesis
    by (simp add: rows_fields_def grid_value_def subscript0_def iter_def row_fields_def)
qed

lemma save_map_grid_raises:
  assumes "(k, grid_value g) \<in> set (chunks (perlin mp))" and "square n g"
  shows "\<exists>e. fst (save_map CHUNK_SIZE mp) = Inl e"
proof -
  from rows_fields_grid_raises [OF assms(2)] obtain e where
    "Raise e \<in> set (rows_fields (grid_value g))" ..
  then have "Raise e \<in> set (noise_chunk_fields (k, grid_value g))"
    by (simp add: noise_chunk_fields_def)
  with assms(1) have "Raise e \<in> set (file_fields CHUNK_SIZE mp)"
    by (force simp: file_fields_def)
  moreover have "pack (Raise e) = Inl e"
    by (simp add: pack_def)
  ultimately show ?thesis
    using outcome_raises by (simp add: save_map_fields)
qed

text \<open>
  C1 fails on the code. With \<open>CHUNK_SIZE\<close> 2, the world below has one noise chunk, keyed
  by the pair (0, 0), whose grid is the 2 by 2 grid of the samples 1.0, 2.0, 3.0 and 4.0
  (given by their bit patterns). \<^verbatim>\<open>save_map\<close> writes the coordinates and the row count of
  the chunk and raises \<^verbatim>\<open>TypeError\<close>; there is nothing to decode back to the world, and
  \<^verbatim>\<open>load_map\<close> raises on the file that is left.
\<close>

theorem save_map_noise_world_raises:
  "save_map 2 \<lparr>perlin = \<lparr>seed = 5, chunks = [(Tuple 0 0,
            PList [PList [PFloat 1065353216, PFloat 1073741824],
                   PList [PFloat 1077936128, PFloat 1082130432]])]\<rparr>,
         ores = [], structures = [], buildings = []\<rparr>
     = (Inl TypeError,
        [77, 65, 80, 0,  5, 0, 0, 0,  0, 0, 0, 0,  0, 0, 0, 0,  0, 0, 0, 0,
         2, 0, 0, 0,  1, 0, 0, 0,  0, 0, 0, 0,  0, 0, 0, 0,  2, 0, 0, 0])
   \<and> load_map []
        [77, 65, 80, 0,  5, 0, 0, 0,  0, 0, 0, 0,  0, 0, 0, 0,  0, 0, 0, 0,
         2, 0, 0, 0,  1, 0, 0, 0,  0, 0, 0, 0,  0, 0, 0, 0,  2, 0, 0, 0]
     = (Inl struct_error, [])"
  by code_simp

text \<open>
  C7 fails on the code. With \<open>CHUNK_SIZE\<close> 1, the noise chunk of the world below is the
  1 by 1 grid of the sample 1.0. Its entry in the file is the two coordinates and the row
  count; where the sample is expected \<^verbatim>\<open>save_map\<close> raises \<^verbatim>\<open>TypeError\<close>, and no sample is
  written.
\<close>

theorem save_map_noise_entry:
  "file_fields 1 \<lparr>perlin = \<lparr>seed = 9,
            chunks = [(Tuple 2 3, PList [PList [PFloat 1065353216]])]\<rparr>,
         ores = [], structures = [], buildings = []\<rparr>
     = [FB 77, FB 65, FB 80, FB 0, Fi 9, Fi 0, Fi 0, Fi 0, Fi 1, Fi 1,
        Fii 2 3, Fi 1, Raise TypeError]
   \<and> save_map 1 \<lparr>perlin = \<lparr>seed = 9,
            chunks = [(Tuple 2 3, PList [PList [PFloat 1065353216]])]\<rparr>,
         ores = [], structures = [], buildings = []\<rparr>
     = (Inl TypeError,
        [77, 65, 80, 0,  9, 0, 0, 0,  0, 0, 0, 0,  0, 0, 0, 0,  0, 0, 0, 0,
         1, 0, 0, 0,  1, 0, 0, 0,  2, 0, 0, 0,  3, 0, 0, 0,  1, 0, 0, 0])"
  by code_simp

text \<open>
  C2 fails on the code. \<^verbatim>\<open>save_map\<close> returns on a chunk whose first element is the grid:
  it writes the coordinates 4 and 5, the row count 1 and the sample 2.0. \<^verbatim>\<open>load_map\<close>
  reads the coordinates and then a sample at once: the sample it stores is the row count
  read as a float, and the four bytes of the sample written are left unread.
\<close>

theorem load_map_skips_row_count:
  "save_map 1 \<lparr>perlin = \<lparr>seed = 3,
            chunks = [(Tuple 4 5, PList [PList [PList [PFloat 1073741824]]])]\<rparr>,
         ores = [], structures = [], buildings = []\<rparr>
     = (Inr (),
        [77, 65, 80, 0,  3, 0, 0, 0,  0, 0, 0, 0,  0, 0, 0, 0,  0, 0, 0, 0,
         1, 0, 0, 0,  1, 0, 0, 0,  4, 0, 0, 0,  5, 0, 0, 0,  1, 0, 0, 0,  0, 0, 0, 64])
   \<and> load_map []
        [77, 65, 80, 0,  3, 0, 0, 0,  0, 0, 0, 0,  0, 0, 0, 0,  0, 0, 0, 0,
         1, 0, 0, 0,  1, 0, 0, 0,  4, 0, 0, 0,  5, 0, 0, 0,  1, 0, 0, 0,  0, 0, 0, 64]
     = (Inr \<lparr>perlin = \<lparr>seed = 3,
               chunks = [(PointKey (Point 4 5), PList [PList [PFloat 1]])]\<rparr>,
             ores = [], structures = [], buildings = []\<rparr>,
        [0, 0, 0, 64])"
  by code_simp

text \<open>
  C5 fails on the code. The file below is the layout of the spec for the world of seed 1
  whose noise chunk (6, 7) is the 1 by 1 grid of the sample 2.0, and it is what \<^verbatim>\<open>save_map\<close>
  writes when the grid is the first element of the chunk. Cut to its first 40 bytes, or
  to its first 43, it is loaded without error.
\<close>

theorem load_map_truncated:
  "save_map 1 \<lparr>perlin = \<lparr>seed = 1,
            chunks = [(Tuple 6 7, PList [PList [PList [PFloat 1073741824]]])]\<rparr>,
         ores = [], structures = [], buildings = []\<rparr>
     = (Inr (),
        [77, 65, 80, 0,  1, 0, 0, 0,  0, 0, 0, 0,  0, 0, 0, 0,  0, 0, 0, 0,
         1, 0, 0, 0,  1, 0, 0, 0,  6, 0, 0, 0,  7, 0, 0, 0,  1, 0, 0, 0,  0, 0, 0, 64])
   \<and> load_map [] (take 40
        [77, 65, 80, 0,  1, 0, 0, 0,  0, 0, 0, 0,  0, 0, 0, 0,  0, 0, 0, 0,
         1, 0, 0, 0,  1, 0, 0, 0,  6, 0, 0, 0,  7, 0, 0, 0,  1, 0, 0, 0,  0, 0, 0, 64])
     = (Inr \<lparr>perlin = \<lparr>seed = 1,
               chunks = [(PointKey (Point 6 7), PList [PList [PFloat 1]])]\<rparr>,
             ores = [], structures = [], buildings = []\<rparr>,
        [])
   \<and> load_map [] (take 43
        [77, 65, 80, 0,  1, 0, 0, 0,  0, 0, 0, 0,  0, 0, 0, 0,  0, 0, 0, 0,
         1, 0, 0, 0,  1, 0, 0, 0,  6, 0, 0, 0,  7, 0, 0, 0,  1, 0, 0, 0,  0, 0, 0, 64])
     = (Inr \<lparr>perlin = \<lparr>seed = 1,
               chunks = [(PointKey (Point 6 7), PList [PList [PFloat 1]])]\<rparr>,
             ores = [], structures = [], buildings = []\<rparr>,
        [0, 0, 0])"
  by code_simp

text \<open>
  C9 fails on the code. The noise chunk that \<^verbatim>\<open>load_map\<close> reads from the file below is
  stored under the key \<^verbatim>\<open>Point(1, 2)\<close>, not under the pair (1, 2), and \<^verbatim>\<open>save_map\<close> raises
  \<^verbatim>\<open>TypeError\<close> on the world returned, where it subscripts that key.
\<close>

theorem load_map_keys_by_Point:
  "load_map []
        [77, 65, 80, 0,  2, 0, 0, 0,  0, 0, 0, 0,  0, 0, 0, 0,  0, 0, 0, 0,
         1, 0, 0, 0,  1, 0, 0, 0,  1, 0, 0, 0,  2, 0, 0, 0,  0, 0, 128, 63]
     = (Inr \<lparr>perlin = \<lparr>seed = 2,
               chunks = [(PointKey (Point 1 2), PList [PList [PFloat 1065353216]])]\<rparr>,
             ores = [], structures = [], buildings = []\<rparr>,
        [])
   \<and> save_map 1 \<lparr>perlin = \<lparr>seed = 2,
               chunks = [(PointKey (Point 1 2), PList [PList [PFloat 1065353216]])]\<rparr>,
             ores = [], structures = [], buildings = []\<rparr>
     = (Inl TypeError,
        [77, 65, 80, 0,  2, 0, 0, 0,  0, 0, 0, 0,  0, 0, 0, 0,  0, 0, 0, 0,
         1, 0, 0, 0,  1, 0, 0, 0])"
  by code_simp

section \<open>Worlds without noise chunks: what is saved is loaded\<close>

lemma outcome_append:
  "outcome (fs @ gs) = Inr () \<longleftrightarrow> outcome fs = Inr () \<and> outcome gs = Inr ()"
  by (induction fs) (auto split: sum.splits)

lemma written_append:
  "outcome fs = Inr () \<Longrightarrow> written (fs @ gs) = written fs @ written gs"
  by (induction fs) (auto split: sum.splits)

lemma outcome_concat:
  "outcome (concat (map G xs)) = Inr () \<longleftrightarrow> (\<forall>x \<in> set xs. outcome (G x) = Inr ())"
  by (induction xs) (auto simp: outcome_append)

lemma outcome_Fi: "outcome (Fi v # fs) = Inr () \<longleftrightarrow> int32 v \<and> outcome fs = Inr ()"
  by (simp add: pack_def pack_i_def)

lemma written_Fi: "int32 v \<Longrightarrow> written (Fi v # fs) = le_bytes (word_of_int v) @ written fs"
  by (simp add: pack_def pack_i_def)

lemma outcome_point:
  "outcome (point_field p # fs) = Inr () \<longleftrightarrow>
     int32 (point_x p) \<and> int32 (point_y p) \<and> outcome fs = Inr ()"
  by (auto simp: point_field_def pack_def pack_ii_def)

lemma written_point:
  "int32 (point_x p) \<Longrightarrow> int32 (point_y p) \<Longrightarrow>
     written (point_field p # fs) =
       le_bytes (word_of_int (point_x p)) @ le_bytes (word_of_int (point_y p)) @ written fs"
  by (simp add: point_field_def pack_def pack_ii_def)

lemma outcome_FB:
  "outcome (FB v # fs) = Inr () \<longleftrightarrow> 0 \<le> v \<and> v \<le> 255 \<and> outcome fs = Inr ()"
  by (auto simp: pack_def pack_B_def)

lemma written_FB:
  "0 \<le> v \<Longrightarrow> v \<le> 255 \<Longrightarrow> written (FB v # fs) = word_of_int v # written fs"
  by (simp add: pack_def pack_B_def)

lemma read_ii_le_bytes:
  "read_ii (le_bytes a @ le_bytes b @ rest) = (Inr (sint a, sint b), rest)"
  by (simp add: read_ii_def io_bind_apply f_read_def io_lift_def unpack_ii_def
      length_le_bytes le_word_le_bytes)

lemma read_i_int32:
  "int32 v \<Longrightarrow> read_i (le_bytes (word_of_int v) @ rest) = (Inr v, rest)"
  by (simp add: read_i_le_bytes sint_word_of_int32)

lemma read_ii_int32:
  "int32 a \<Longrightarrow> int32 b \<Longrightarrow>
     read_ii (le_bytes (word_of_int a) @ le_bytes (word_of_int b) @ rest) = (Inr (a, b), rest)"
  by (simp add: read_ii_le_bytes sint_word_of_int32)

lemma read_i_nat:
  "int32 (int n) \<Longrightarrow> read_i (le_bytes (word_of_nat n) @ rest) = (Inr (int n), rest)"
  using read_i_int32 [of "int n" rest] by simp

lemma read_B_byte:
  "0 \<le> v \<Longrightarrow> v \<le> 255 \<Longrightarrow> read_B (word_of_int v # rest) = (Inr v, rest)"
  by (simp add: read_B_Cons uint_word_of_int take_bit_eq_mod)

lemma dict_set_fresh: "k \<notin> fst ` set d \<Longrightarrow> dict_set k v d = d @ [(k, v)]"
  by (induction d) auto

lemma foldl_dict_set:
  "distinct (map fst (acc @ xs)) \<Longrightarrow> foldl (\<lambda>d (k, v). dict_set k v d) acc xs = acc @ xs"
proof (induction xs arbitrary: acc)
  case Nil
  then show ?case by simp
next
  case (Cons x xs)
  obtain k v where x: "x = (k, v)" by (cases x)
  have "dict_set k v acc = acc @ [(k, v)]"
    using Cons.prems by (intro dict_set_fresh) (auto simp: x)
  moreover have "distinct (map fst ((acc @ [(k, v)]) @ xs))"
    using Cons.prems by (simp add: x)
  ultimately show ?case
    using Cons.IH [of "acc @ [(k, v)]"] by (simp add: x)
qed

text \<open>A loop that reads back, one item an iteration, what was written for a list.\<close>

lemma for_in_reads:
  assumes "length is = length xs"
    and "\<And>x acc rest. x \<in> set xs \<Longrightarrow>
           body acc (written (G x) @ rest) = (Inr (upd acc x), rest)"
    and "\<forall>x \<in> set xs. outcome (G x) = Inr ()"
  shows "for_in is (\<lambda>_. body) acc (written (concat (map G xs)) @ rest)
           = (Inr (foldl upd acc xs), rest)"
  using assms
proof (induction xs arbitrary: "is" acc)
  case Nil
  then show ?case by (simp add: io_return_def)
next
  case (Cons x xs)
  then obtain i is' where "is": "is = i # is'" "length is' = length xs"
    by (cases "is") auto
  have w: "written (G x @ concat (map G xs)) = written (G x) @ written (concat (map G xs))"
    using Cons.prems(3) by (simp add: written_append)
  have step: "body acc (written (G x) @ written (concat (map G xs)) @ rest)
      = (Inr (upd acc x), written (concat (map G xs)) @ rest)"
    using Cons.prems(2) [of x acc] by simp
  have "for_in is' (\<lambda>_. body) (upd acc x) (written (concat (map G xs)) @ rest)
      = (Inr (foldl upd (upd acc x) xs), rest)"
    using Cons.prems(2,3) by (intro Cons.IH "is"(2)) auto
  then show ?case
    by (simp add: "is" w step io_bind_apply)
qed

lemma length_py_range: "length (py_range (int n)) = n"
  by (simp add: py_range_def)

lemma load_points_reads:
  assumes "outcome (map point_field ps) = Inr ()"
  shows "load_points (int (length ps)) (written (map point_field ps) @ rest) = (Inr ps, rest)"
proof -
  have ok: "\<forall>p \<in> set ps. outcome [point_field p] = Inr ()"
    using assms outcome_concat [of "\<lambda>p. [point_field p]" ps] by simp
  have "for_in (py_range (int (length ps)))
          (\<lambda>_ points. io_bind read_ii (\<lambda>(point_x, point_y).
             io_return (points @ [Point point_x point_y]))) []
          (written (concat (map (\<lambda>p. [point_field p]) ps)) @ rest)
        = (Inr (foldl (\<lambda>acc p. acc @ [p]) [] ps), rest)"
  proof (rule for_in_reads [OF length_py_range _ ok])
    fix p acc rest'
    assume "p \<in> set ps"
    with ok have "int32 (point_x p)" "int32 (point_y p)"
      by (simp_all add: outcome_point del: outcome.simps)
    then show "io_bind read_ii (\<lambda>(point_x, point_y). io_return (acc @ [Point point_x point_y]))
          (written [point_field p] @ rest') = (Inr (acc @ [p]), rest')"
      using read_ii_int32 [of "point_x p" "point_y p" rest']
      by (simp add: written_point io_bind_apply io_return_def del: written.simps(2))
  qed
  moreover have "foldl (\<lambda>acc p. acc @ [p]) acc ps = acc @ ps" for acc :: "point list"
    by (induction ps arbitrary: acc) auto
  ultimately show ?thesis
    by (simp add: load_points_def)
qed

lemma read_points:
  assumes "outcome (points_fields ps) = Inr ()"
  shows "io_bind read_i load_points (written (points_fields ps) @ rest) = (Inr ps, rest)"
  using assms
  by (simp add: points_fields_def outcome_Fi written_Fi io_bind_apply read_i_nat
      load_points_reads del: outcome.simps written.simps)

lemma load_ore_reads:
  assumes "outcome (ore_fields (t, ps)) = Inr ()" and "ore_value t \<in> set members"
  shows "load_ore members acc (written (ore_fields (t, ps)) @ rest)
           = (Inr (dict_set t ps acc), rest)"
proof -
  have "load_ore members acc
      = io_bind read_B (\<lambda>v. io_bind (io_lift (OreType_call members v)) (\<lambda>ore_type.
          io_bind (io_bind read_i load_points) (\<lambda>points.
            io_return (dict_set ore_type points acc))))"
    by (simp add: load_ore_def io_bind_assoc)
  then show ?thesis
    using assms
    by (simp add: ore_fields_def outcome_FB written_FB io_bind_apply read_B_byte
        read_points [unfolded io_bind_apply] io_lift_def OreType_call_def io_return_def
        del: outcome.simps written.simps)
qed


lemma load_ore_chunk_reads:
  assumes ok: "outcome (ore_chunk_fields (c, os)) = Inr ()"
    and keys: "distinct (map fst os)"
    and members: "\<forall>(t, ps) \<in> set os. ore_value t \<in> set members"
  shows "load_ore_chunk members mp (written (ore_chunk_fields (c, os)) @ rest)
           = (Inr (mp\<lparr>ores := dict_set c os (ores mp)\<rparr>), rest)"
proof -
  from ok have c: "int32 (point_x c)" "int32 (point_y c)" and n: "int32 (int (length os))"
    and each: "\<forall>x \<in> set os. outcome (ore_fields x) = Inr ()"
    by (simp_all add: ore_chunk_fields_def outcome_point outcome_Fi outcome_concat
        del: outcome.simps)
  have loop: "for_in (py_range (int (length os))) (\<lambda>_. load_ore members) []
        (written (concat (map ore_fields os)) @ rest)
      = (Inr (foldl (\<lambda>d (k, v). dict_set k v d) [] os), rest)"
  proof (rule for_in_reads [OF length_py_range _ each])
    fix x acc rest'
    assume x: "x \<in> set os"
    obtain t ps where tp: "x = (t, ps)" by (cases x)
    have "outcome (ore_fields (t, ps)) = Inr ()" "ore_value t \<in> set members"
      using x each members by (auto simp: tp)
    then show "load_ore members acc (written (ore_fields x) @ rest')
        = (Inr ((\<lambda>d (k, v). dict_set k v d) acc x), rest')"
      by (simp add: tp load_ore_reads)
  qed
  have "foldl (\<lambda>d (k, v). dict_set k v d) [] os = os"
    using foldl_dict_set [of "[]" os] keys by simp
  with loop show ?thesis
    using c n
    by (simp add: load_ore_chunk_def ore_chunk_fields_def written_point written_Fi
        io_bind_apply read_ii_int32 read_i_nat io_return_def
        del: outcome.simps written.simps)
qed

lemma foldl_ores:
  "foldl (\<lambda>m (c, os). m\<lparr>ores := dict_set c os (ores m)\<rparr>) mp xs
     = mp\<lparr>ores := foldl (\<lambda>d (k, v). dict_set k v d) (ores mp) xs\<rparr>"
  by (induction xs arbitrary: mp) (auto simp: case_prod_beta)

lemma load_ores_reads:
  assumes ok: "outcome (Fi (int (length xs)) # concat (map ore_chunk_fields xs)) = Inr ()"
    and keys: "distinct (map fst xs)" "\<forall>(c, os) \<in> set xs. distinct (map fst os)"
    and members: "\<forall>(c, os) \<in> set xs. \<forall>(t, ps) \<in> set os. ore_value t \<in> set members"
    and empty: "ores mp = []"
  shows "load_ores members mp
           (written (Fi (int (length xs)) # concat (map ore_chunk_fields xs)) @ rest)
           = (Inr (mp\<lparr>ores := xs\<rparr>), rest)"
proof -
  from ok have n: "int32 (int (length xs))"
    and each: "\<forall>x \<in> set xs. outcome (ore_chunk_fields x) = Inr ()"
    by (simp_all add: outcome_Fi outcome_concat del: outcome.simps)
  have loop: "for_in (py_range (int (length xs))) (\<lambda>_. load_ore_chunk members) mp
        (written (concat (map ore_chunk_fields xs)) @ rest)
      = (Inr (foldl (\<lambda>m (c, os). m\<lparr>ores := dict_set c os (ores m)\<rparr>) mp xs), rest)"
  proof (rule for_in_reads [OF length_py_range _ each])
    fix x acc rest'
    assume x: "x \<in> set xs"
    obtain c os where co: "x = (c, os)" by (cases x)
    have "outcome (ore_chunk_fields (c, os)) = Inr ()" "distinct (map fst os)"
      "\<forall>(t, ps) \<in> set os. ore_value t \<in> set members"
      using x each keys(2) members by (auto simp: co)
    then show "load_ore_chunk members acc (written (ore_chunk_fields x) @ rest')
        = (Inr ((\<lambda>m (c, os). m\<lparr>ores := dict_set c os (ores m)\<rparr>) acc x), rest')"
      by (simp add: co load_ore_chunk_reads)
  qed
  have "foldl (\<lambda>d (k, v). dict_set k v d) (ores mp) xs = xs"
    using foldl_dict_set [of "[]" xs] keys(1) empty by simp
  with loop show ?thesis
    using n
    by (simp add: load_ores_def written_Fi io_bind_apply read_i_nat foldl_ores
        del: outcome.simps written.simps)
qed


lemma foldl_snoc: "foldl (\<lambda>acc x. acc @ [x]) acc xs = acc @ xs"
  by (induction xs arbitrary: acc) auto

lemma load_structure_reads:
  assumes "outcome (structure_fields s) = Inr ()"
  shows "load_structure acc (written (structure_fields s) @ rest) = (Inr (acc @ [s]), rest)"
proof -
  have "load_structure acc
      = io_bind read_i (\<lambda>structure_type. io_bind read_ii (\<lambda>(position_x, position_y).
          io_bind (io_bind read_i load_points) (\<lambda>points. io_return
            (acc @ [Structure structure_type (Point position_x position_y) points]))))"
    by (simp add: load_structure_def io_bind_assoc)
  then show ?thesis
    using assms
    by (cases s; cases "position s")
       (simp add: structure_fields_def outcome_Fi outcome_point written_Fi written_point
          io_bind_apply read_i_int32 read_ii_int32 read_points [unfolded io_bind_apply]
          io_return_def del: outcome.simps written.simps)
qed

lemma load_structure_chunk_reads:
  assumes ok: "outcome (structure_chunk_fields (c, ss)) = Inr ()"
  shows "load_structure_chunk mp (written (structure_chunk_fields (c, ss)) @ rest)
           = (Inr (mp\<lparr>structures := dict_set c ss (structures mp)\<rparr>), rest)"
proof -
  from ok have c: "int32 (point_x c)" "int32 (point_y c)" and n: "int32 (int (length ss))"
    and each: "\<forall>x \<in> set ss. outcome (structure_fields x) = Inr ()"
    by (simp_all add: structure_chunk_fields_def outcome_point outcome_Fi outcome_concat
        del: outcome.simps)
  have "for_in (py_range (int (length ss))) (\<lambda>_. load_structure) []
        (written (concat (map structure_fields ss)) @ rest)
      = (Inr (foldl (\<lambda>acc x. acc @ [x]) [] ss), rest)"
    using each by (intro for_in_reads [OF length_py_range _ each]) (simp add: load_structure_reads)
  then show ?thesis
    using c n
    by (simp add: load_structure_chunk_def structure_chunk_fields_def written_point written_Fi
        io_bind_apply read_ii_int32 read_i_nat io_return_def foldl_snoc
        del: outcome.simps written.simps)
qed

lemma foldl_structures:
  "foldl (\<lambda>m (c, ss). m\<lparr>structures := dict_set c ss (structures m)\<rparr>) mp xs
     = mp\<lparr>structures := foldl (\<lambda>d (k, v). dict_set k v d) (structures mp) xs\<rparr>"
  by (induction xs arbitrary: mp) (auto simp: case_prod_beta)

lemma load_structures_reads:
  assumes ok: "outcome (Fi (int (length xs)) # concat (map structure_chunk_fields xs)) = Inr ()"
    and keys: "distinct (map fst xs)"
    and empty: "structures mp = []"
  shows "load_structures mp
           (written (Fi (int (length xs)) # concat (map structure_chunk_fields xs)) @ rest)
           = (Inr (mp\<lparr>structures := xs\<rparr>), rest)"
proof -
  from ok have n: "int32 (int (length xs))"
    and each: "\<forall>x \<in> set xs. outcome (structure_chunk_fields x) = Inr ()"
    by (simp_all add: outcome_Fi outcome_concat del: outcome.simps)
  have loop: "for_in (py_range (int (length xs))) (\<lambda>_. load_structure_chunk) mp
        (written (concat (map structure_chunk_fields xs)) @ rest)
      = (Inr (foldl (\<lambda>m (c, ss). m\<lparr>structures := dict_set c ss (structures m)\<rparr>) mp xs),
         rest)"
  proof (rule for_in_reads [OF length_py_range _ each])
    fix x acc rest'
    assume x: "x \<in> set xs"
    obtain c ss where cs: "x = (c, ss)" by (cases x)
    have "outcome (structure_chunk_fields (c, ss)) = Inr ()"
      using x each by (auto simp: cs)
    then show "load_structure_chunk acc (written (structure_chunk_fields x) @ rest')
        = (Inr ((\<lambda>m (c, ss). m\<lparr>structures := dict_set c ss (structures m)\<rparr>) acc x), rest')"
      by (simp add: cs load_structure_chunk_reads)
  qed
  have "foldl (\<lambda>d (k, v). dict_set k v d) (structures mp) xs = xs"
    using foldl_dict_set [of "[]" xs] keys empty by simp
  with loop show ?thesis
    using n
    by (simp add: load_structures_def written_Fi io_bind_apply read_i_nat foldl_structures
        del: outcome.simps written.simps)
qed

lemma load_building_reads:
  assumes "outcome (building_fields b) = Inr ()"
  shows "load_building mp (written (building_fields b) @ rest)
           = (Inr (mp\<lparr>buildings := buildings mp @ [b]\<rparr>), rest)"
proof -
  have "load_building mp
      = io_bind read_ii (\<lambda>(position_x, position_y).
          io_bind (io_bind read_i load_points) (\<lambda>points. io_return
            (mp\<lparr>buildings := buildings mp @ [Building (Point position_x position_y) points]\<rparr>)))"
    by (simp add: load_building_def io_bind_assoc)
  then show ?thesis
    using assms
    by (cases b; cases "building_position b")
       (simp add: building_fields_def outcome_point written_point
          io_bind_apply read_ii_int32 read_points [unfolded io_bind_apply]
          io_return_def del: outcome.simps written.simps)
qed

lemma foldl_buildings:
  "foldl (\<lambda>m b. m\<lparr>buildings := buildings m @ [b]\<rparr>) mp bs
     = mp\<lparr>buildings := buildings mp @ bs\<rparr>"
  by (induction bs arbitrary: mp) auto

lemma load_buildings_reads:
  assumes ok: "outcome (Fi (int (length bs)) # concat (map building_fields bs)) = Inr ()"
    and empty: "buildings mp = []"
  shows "load_buildings mp
           (written (Fi (int (length bs)) # concat (map building_fields bs)) @ rest)
           = (Inr (mp\<lparr>buildings := bs\<rparr>), rest)"
proof -
  from ok have n: "int32 (int (length bs))"
    and each: "\<forall>x \<in> set bs. outcome (building_fields x) = Inr ()"
    by (simp_all add: outcome_Fi outcome_concat del: outcome.simps)
  have "for_in (py_range (int (length bs))) (\<lambda>_. load_building) mp
        (written (concat (map building_fields bs)) @ rest)
      = (Inr (foldl (\<lambda>m b. m\<lparr>buildings := buildings m @ [b]\<rparr>) mp bs), rest)"
    using each by (intro for_in_reads [OF length_py_range _ each]) (simp add: load_building_reads)
  then show ?thesis
    using n empty
    by (simp add: load_buildings_def written_Fi io_bind_apply read_i_nat foldl_buildings
        del: outcome.simps written.simps)
qed


lemma load_header_reads:
  "int32 s \<Longrightarrow>
     load_header ([77, 65, 80, 0] @ le_bytes (word_of_int s) @ rest) = (Inr (Map_new s), rest)"
  by (simp add: load_header_def io_bind_apply f_read_def io_lift_def unpack_BBBB_def
      signature_def read_i_int32 io_return_def)

lemma load_noise_none:
  "int32 cs \<Longrightarrow> load_noise mp (written [Fi cs, Fi 0]) = (Inr mp, [])"
  using read_i_int32 [of cs "le_bytes 0"]
  by (simp add: load_noise_def io_bind_apply pack_def pack_i_def int32_def
      read_i_le_bytes_end py_range_def io_return_def)

lemma written_signature: "written (map FB signature @ fs) = [77, 65, 80, 0] @ written fs"
  by (simp add: signature_def pack_def pack_B_def)

lemma outcome_signature: "outcome (map FB signature @ fs) = outcome fs"
  by (simp add: signature_def pack_def pack_B_def)

text \<open>
  A world without noise chunks, whose dictionaries have each key once and whose ore kinds
  are members of \<^verbatim>\<open>OreType\<close>, is read back from the file \<^verbatim>\<open>save_map\<close> has written for it,
  and the file is read to its end.
\<close>

lemma load_map_save_map:
  fixes mp :: Map
  assumes noise: "chunks (perlin mp) = []"
    and saved: "save_map CHUNK_SIZE mp = (Inr (), out)"
    and ore_keys: "distinct (map fst (ores mp))"
      "\<forall>(c, os) \<in> set (ores mp). distinct (map fst os)"
    and members: "\<forall>(c, os) \<in> set (ores mp). \<forall>(t, ps) \<in> set os. ore_value t \<in> set members"
    and structure_keys: "distinct (map fst (structures mp))"
  shows "load_map members out = (Inr mp, [])"
proof -
  let ?O = "Fi (int (length (ores mp))) # concat (map ore_chunk_fields (ores mp))"
  let ?S = "Fi (int (length (structures mp)))
              # concat (map structure_chunk_fields (structures mp))"
  let ?B = "Fi (int (length (buildings mp))) # concat (map building_fields (buildings mp))"
  let ?N = "[Fi CHUNK_SIZE, Fi 0]"
  let ?s = "seed (perlin mp)"
  have ff: "file_fields CHUNK_SIZE mp = map FB signature @ Fi ?s # ?O @ ?S @ ?B @ ?N"
    by (simp add: file_fields_def noise)
  from saved have ok: "outcome (file_fields CHUNK_SIZE mp) = Inr ()"
    and out: "out = written (file_fields CHUNK_SIZE mp)"
    by (simp_all add: save_map_fields)
  from ok have s: "int32 ?s" and O: "outcome ?O = Inr ()" and S: "outcome ?S = Inr ()"
    and B: "outcome ?B = Inr ()" and N: "outcome ?N = Inr ()"
    unfolding ff outcome_signature outcome_Fi [of ?s] outcome_append by simp_all
  from N have cs: "int32 CHUNK_SIZE"
    by (simp add: outcome_Fi del: outcome.simps)
  have out': "out = [77, 65, 80, 0] @ le_bytes (word_of_int ?s) @ written ?O @ written ?S
      @ written ?B @ written ?N"
    unfolding out ff written_signature written_Fi [OF s] written_append [OF O]
      written_append [OF S] written_append [OF B] by simp
  let ?m0 = "Map_new ?s"
  let ?m1 = "?m0\<lparr>ores := ores mp\<rparr>"
  let ?m2 = "?m1\<lparr>structures := structures mp\<rparr>"
  let ?m3 = "?m2\<lparr>buildings := buildings mp\<rparr>"
  have 0: "load_header (out) = (Inr ?m0, written ?O @ written ?S @ written ?B @ written ?N)"
    unfolding out' by (rule load_header_reads [OF s])
  have 1: "load_ores members ?m0 (written ?O @ written ?S @ written ?B @ written ?N)
      = (Inr ?m1, written ?S @ written ?B @ written ?N)"
    using O ore_keys members by (intro load_ores_reads) (simp_all add: Map_new_def)
  have 2: "load_structures ?m1 (written ?S @ written ?B @ written ?N)
      = (Inr ?m2, written ?B @ written ?N)"
    using S structure_keys by (intro load_structures_reads) (simp_all add: Map_new_def)
  have 3: "load_buildings ?m2 (written ?B @ written ?N) = (Inr ?m3, written ?N)"
    using B by (intro load_buildings_reads) (simp_all add: Map_new_def)
  have 4: "load_noise ?m3 (written ?N) = (Inr ?m3, [])"
    by (rule load_noise_none [OF cs])
  have "?m3 = mp"
    using noise by (cases mp, cases "perlin mp") (simp add: Map_new_def)
  with 0 1 2 3 4 show ?thesis
    by (simp add: load_map_def io_bind_apply del: outcome.simps written.simps)
qed

section \<open>Worlds without noise chunks: a file cut short\<close>

lemma extends_return: "extends (io_return a)"
  by (simp add: extends_def io_return_def)

lemma extends_raise: "extends (io_raise e)"
  by (simp add: extends_def io_raise_def)

lemma extends_bind:
  assumes "extends m" and "\<And>a. extends (k a)"
  shows "extends (io_bind m k)"
  unfolding extends_def
proof (intro allI impI)
  fix s b r q
  assume "io_bind m k s = (Inr b, r)"
  then obtain a s1 where "m s = (Inr a, s1)" "k a s1 = (Inr b, r)"
    by (auto simp: io_bind_Inr)
  then have "m (s @ q) = (Inr a, s1 @ q)" "k a (s1 @ q) = (Inr b, r @ q)"
    using assms by (auto simp: extends_def)
  then show "io_bind m k (s @ q) = (Inr b, r @ q)"
    by (simp add: io_bind_apply)
qed

lemma extends_for_in:
  assumes "\<And>x acc. extends (body x acc)"
  shows "extends (for_in xs body acc)"
  by (induction xs arbitrary: acc) (simp_all add: extends_return extends_bind assms)

lemma extends_read:
  assumes "\<And>bs a. unpack bs = Inr a \<Longrightarrow> length bs = n" and "\<And>a. extends (k a)"
  shows "extends (io_bind (f_read n) (\<lambda>b. io_bind (io_lift (unpack b)) k))"
  unfolding extends_def
proof (intro allI impI)
  fix s b r q
  assume *: "io_bind (f_read n) (\<lambda>b. io_bind (io_lift (unpack b)) k) s = (Inr b, r)"
  then obtain a where a: "unpack (take n s) = Inr a" and k: "k a (drop n s) = (Inr b, r)"
    by (auto simp: io_bind_Inr f_read_def io_lift_def)
  from assms(1) [OF a] have "n \<le> length s"
    by (metis length_take min.cobounded1)
  moreover have "k a (drop n s @ q) = (Inr b, r @ q)"
    using k assms(2) by (auto simp: extends_def)
  ultimately show "io_bind (f_read n) (\<lambda>b. io_bind (io_lift (unpack b)) k) (s @ q)
      = (Inr b, r @ q)"
    using a by (simp add: io_bind_apply f_read_def io_lift_def)
qed

lemma extends_read_i: "extends read_i"
proof -
  have len: "unpack_i bs = Inr a \<Longrightarrow> length bs = 4" for bs a
    by (simp add: unpack_i_def split: if_splits)
  have "extends (io_bind (f_read 4) (\<lambda>b. io_bind (io_lift (unpack_i b)) io_return))"
    by (rule extends_read [OF len extends_return])
  then show ?thesis
    by (simp add: read_i_def io_bind_return_right)
qed

lemma extends_read_ii: "extends read_ii"
proof -
  have len: "unpack_ii bs = Inr a \<Longrightarrow> length bs = 8" for bs a
    by (simp add: unpack_ii_def split: if_splits)
  have "extends (io_bind (f_read 8) (\<lambda>b. io_bind (io_lift (unpack_ii b)) io_return))"
    by (rule extends_read [OF len extends_return])
  then show ?thesis
    by (simp add: read_ii_def io_bind_return_right)
qed

lemma extends_read_B: "extends read_B"
proof -
  have len: "unpack_B bs = Inr a \<Longrightarrow> length bs = 1" for bs a
    by (auto simp: unpack_B_def split: list.splits)
  have "extends (io_bind (f_read 1) (\<lambda>b. io_bind (io_lift (unpack_B b)) io_return))"
    by (rule extends_read [OF len extends_return])
  then show ?thesis
    by (simp add: read_B_def io_bind_return_right)
qed

lemma extends_read_f: "extends read_f"
proof -
  have len: "unpack_f bs = Inr a \<Longrightarrow> length bs = 4" for bs a
    by (simp add: unpack_f_def split: if_splits)
  have "extends (io_bind (f_read 4) (\<lambda>b. io_bind (io_lift (unpack_f b)) io_return))"
    by (rule extends_read [OF len extends_return])
  then show ?thesis
    by (simp add: read_f_def io_bind_return_right)
qed

lemma extends_lift: "extends (io_lift r)"
  by (simp add: extends_def io_lift_def)

lemmas extends_intros = extends_bind extends_for_in extends_return extends_raise
  extends_lift extends_read_i extends_read_ii extends_read_B extends_read_f

lemma extends_load_points: "extends (load_points n)"
  unfolding load_points_def by (auto intro!: extends_intros split: prod.splits)


lemma extends_load_header: "extends load_header"
proof -
  have len: "unpack_BBBB bs = Inr a \<Longrightarrow> length bs = 4" for bs a
    by (simp add: unpack_BBBB_def split: if_splits)
  show ?thesis
    unfolding load_header_def
    by (rule extends_read [OF len]) (auto intro!: extends_intros)
qed

lemma extends_load_ores: "extends (load_ores members mp)"
  unfolding load_ores_def load_ore_chunk_def load_ore_def
  by (auto intro!: extends_intros extends_load_points split: prod.splits)

lemma extends_load_structures: "extends (load_structures mp)"
  unfolding load_structures_def load_structure_chunk_def load_structure_def
  by (auto intro!: extends_intros extends_load_points split: prod.splits)

lemma extends_load_buildings: "extends (load_buildings mp)"
  unfolding load_buildings_def load_building_def
  by (auto intro!: extends_intros extends_load_points split: prod.splits)

lemma extends_load_noise: "extends (load_noise mp)"
  unfolding load_noise_def load_noise_chunk_def load_grid_def
  by (auto intro!: extends_intros split: prod.splits)

lemma extends_load_map: "extends (load_map members)"
  unfolding load_map_def
  by (intro extends_bind extends_load_header extends_load_ores extends_load_structures
      extends_load_buildings extends_load_noise)

text \<open>
  Cut anywhere before its end, the file of such a world makes \<^verbatim>\<open>load_map\<close> raise.
\<close>

lemma load_map_truncated_raises:
  fixes mp :: Map
  assumes noise: "chunks (perlin mp) = []"
    and saved: "save_map CHUNK_SIZE mp = (Inr (), out)"
    and ore_keys: "distinct (map fst (ores mp))"
      "\<forall>(c, os) \<in> set (ores mp). distinct (map fst os)"
    and members: "\<forall>(c, os) \<in> set (ores mp). \<forall>(t, ps) \<in> set os. ore_value t \<in> set members"
    and structure_keys: "distinct (map fst (structures mp))"
    and cut: "n < length out"
  shows "\<exists>e r. load_map members (take n out) = (Inl e, r)"
proof (rule ccontr)
  assume "\<not> (\<exists>e r. load_map members (take n out) = (Inl e, r))"
  then obtain m r where "load_map members (take n out) = (Inr m, r)"
    by (cases "load_map members (take n out)"; cases "fst (load_map members (take n out))")
       auto
  then have "load_map members (take n out @ drop n out) = (Inr m, r @ drop n out)"
    by (rule extends_load_map [unfolded extends_def, rule_format])
  then have "load_map members out = (Inr m, r @ drop n out)"
    by simp
  moreover have "load_map members out = (Inr mp, [])"
    using assms(1-6) by (rule load_map_save_map)
  ultimately show False
    using cut by simp
qed

end
